theory Spec2Isabelle
  imports Main "HOL-Library.Sublist" "HOL-Library.Word"
begin

section \<open>Strings\<close>

text \<open>
  JavaScript strings are modelled as \<^typ>\<open>string\<close>. \<open>String.prototype.toLowerCase\<close> is
  modelled on the ASCII letters (every other character is left as it is), and
  \<open>String.prototype.includes\<close> as the search for a contiguous occurrence.
\<close>

definition upper_letters :: string where
  "upper_letters = ''ABCDEFGHIJKLMNOPQRSTUVWXYZ''"

definition lower_letters :: string where
  "lower_letters = ''abcdefghijklmnopqrstuvwxyz''"

definition lower_char :: "char \<Rightarrow> char" where
  "lower_char c = (case map_of (zip upper_letters lower_letters) c of Some l \<Rightarrow> l | None \<Rightarrow> c)"

definition toLowerCase :: "string \<Rightarrow> string" where
  "toLowerCase s = map lower_char s"

fun includes_str :: "string \<Rightarrow> string \<Rightarrow> bool" where
  "includes_str [] p = (p = [])"
| "includes_str (c # cs) p = (prefix p (c # cs) \<or> includes_str cs p)"

section \<open>The entity store (\<open>JsonDataService\<close>)\<close>

subsection \<open>Data model\<close>

record Artist =
  artist_id :: string
  artist_name :: string
  birthYear :: "string option"
  deathYear :: "string option"
  nationality :: "string option"
  bio :: "string option"

record Material =
  material_id :: string
  material_name :: string
  properties :: "string option"
  uses :: "string option"

record Period =
  period_id :: string
  period_name :: string
  startYear :: "string option"
  endYear :: "string option"
  characteristics :: "string option"

record Location =
  location_id :: string
  location_name :: string
  city :: "string option"
  country :: "string option"

record Sculpture =
  sculpture_id :: string
  sculpture_name :: string
  artist :: string
  year :: "string option"
  material :: "string option"
  period :: "string option"
  location :: "string option"
  description :: "string option"
  imageUrl :: "string option"
  visualDescription :: "string option"

record SculptureData =
  sculptures :: "Sculpture list"
  artists :: "Artist list"
  materials :: "Material list"
  periods :: "Period list"
  locations :: "Location list"

text \<open>
  What \<open>JSON.parse\<close> gives for the data file is not checked against \<open>SculptureData\<close>, so
  the value held in \<open>this.data\<close> is modelled with each collection present or not: \<open>None\<close>
  stands for a property that is missing or is not an array, on which \<open>filter\<close> and \<open>find\<close>
  raise a \<open>TypeError\<close>. The entries of a collection are taken in their declared shape.
  A value with no collection stands for any truthy value that is not such an object.
\<close>

record Document =
  doc_sculptures :: "Sculpture list option"
  doc_artists :: "Artist list option"
  doc_materials :: "Material list option"
  doc_periods :: "Period list option"
  doc_locations :: "Location list option"

text \<open>The document of the declared shape with the collections of \<open>d\<close>.\<close>

definition document :: "SculptureData \<Rightarrow> Document" where
  "document d =
     \<lparr>doc_sculptures = Some (sculptures d), doc_artists = Some (artists d),
      doc_materials = Some (materials d), doc_periods = Some (periods d),
      doc_locations = Some (locations d)\<rparr>"

text \<open>
  The field \<open>data\<close> is \<open>None\<close> for \<open>null\<close> (and for any other falsy value, which
  \<open>!this.data\<close> does not tell from it).
\<close>

record JsonDataService =
  data :: "Document option"
  dataPath :: string

datatype error = IOError | SyntaxError | TypeError | RemoteError | StreamError

text \<open>
  The file system and \<open>JSON.parse\<close> are outside the program: \<open>readFile\<close> gives the content
  of a path or fails, \<open>parseData\<close> gives the value of a text (\<open>None\<close> for \<open>null\<close> or another
  falsy value, a document otherwise) or fails. They are passed to every operation that may
  load, so that two calls can see different files.
\<close>

record files =
  readFile :: "string \<Rightarrow> error + string"
  parseData :: "string \<Rightarrow> error + Document option"

subsection \<open>Loading\<close>

text \<open>
  The body of the \<open>try\<close> block of \<open>loadData\<close>: the result is the value returned or the
  error thrown, together with the service as it is at that moment. What was parsed is
  assigned as it is.
\<close>

definition loadData_try :: "files \<Rightarrow> JsonDataService \<Rightarrow> (error + bool) \<times> JsonDataService" where
  "loadData_try fs svc =
     (case readFile fs (dataPath svc) of
        Inl e \<Rightarrow> (Inl e, svc)
      | Inr fileContent \<Rightarrow>
          (case parseData fs fileContent of
             Inl e \<Rightarrow> (Inl e, svc)
           | Inr parsed \<Rightarrow> (Inr True, svc\<lparr>data := parsed\<rparr>)))"

definition loadData :: "files \<Rightarrow> JsonDataService \<Rightarrow> bool \<times> JsonDataService" where
  "loadData fs svc =
     (case loadData_try fs svc of
        (Inl e, svc') \<Rightarrow> (False, svc')
      | (Inr b, svc') \<Rightarrow> (b, svc'))"

text \<open>The first line of every lookup: \<open>if (!this.data) await this.loadData();\<close>\<close>

definition ensureLoaded :: "files \<Rightarrow> JsonDataService \<Rightarrow> JsonDataService" where
  "ensureLoaded fs svc = (if data svc = None then snd (loadData fs svc) else svc)"

subsection \<open>Lookups\<close>

text \<open>
  A lookup gives its result or the \<open>TypeError\<close> it raises, and the service as the lookup
  leaves it.
\<close>

definition findSculptureByName ::
  "files \<Rightarrow> JsonDataService \<Rightarrow> string \<Rightarrow> (error + Sculpture list) \<times> JsonDataService" where
  "findSculptureByName fs svc name =
     (let svc' = ensureLoaded fs svc in
      case data svc' of
        None \<Rightarrow> (Inr [], svc')
      | Some d \<Rightarrow>
          (let namePattern = toLowerCase name in
           case doc_sculptures d of
             None \<Rightarrow> (Inl TypeError, svc')
           | Some all \<Rightarrow>
               (Inr (filter (\<lambda>sculpture. includes_str (toLowerCase (sculpture_name sculpture)) namePattern)
                       all), svc')))"


text \<open>
  In the three lookups by a related entity the sculptures are read inside the loop over
  the matching entities, so a missing collection of sculptures raises only when an entity
  matches.
\<close>

definition getSculpturesByArtist ::
  "files \<Rightarrow> JsonDataService \<Rightarrow> string \<Rightarrow> (error + (Sculpture \<times> Artist) list) \<times> JsonDataService" where
  "getSculpturesByArtist fs svc artistName =
     (let svc' = ensureLoaded fs svc in
      case data svc' of
        None \<Rightarrow> (Inr [], svc')
      | Some d \<Rightarrow>
          (let artistNamePattern = toLowerCase artistName in
           case doc_artists d of
             None \<Rightarrow> (Inl TypeError, svc')
           | Some all \<Rightarrow>
               (let matchingArtists =
                      filter (\<lambda>a. includes_str (toLowerCase (artist_name a)) artistNamePattern) all
                in if matchingArtists = [] then (Inr [], svc')
                   else case doc_sculptures d of
                          None \<Rightarrow> (Inl TypeError, svc')
                        | Some works \<Rightarrow>
                            (Inr (concat (map (\<lambda>a. map (\<lambda>sculpture. (sculpture, a))
                                    (filter (\<lambda>sculpture. artist sculpture = artist_id a
                                                         \<or> artist sculpture = artist_name a)
                                       works))
                                  matchingArtists)), svc'))))"

definition getSculpturesByMaterial ::
  "files \<Rightarrow> JsonDataService \<Rightarrow> string \<Rightarrow> (error + (Sculpture \<times> Material) list) \<times> JsonDataService" where
  "getSculpturesByMaterial fs svc materialName =
     (let svc' = ensureLoaded fs svc in
      case data svc' of
        None \<Rightarrow> (Inr [], svc')
      | Some d \<Rightarrow>
          (let materialNamePattern = toLowerCase materialName in
           case doc_materials d of
             None \<Rightarrow> (Inl TypeError, svc')
           | Some all \<Rightarrow>
               (let matchingMaterials =
                      filter (\<lambda>m. includes_str (toLowerCase (material_name m)) materialNamePattern) all
                in if matchingMaterials = [] then (Inr [], svc')
                   else case doc_sculptures d of
                          None \<Rightarrow> (Inl TypeError, svc')
                        | Some works \<Rightarrow>
                            (Inr (concat (map (\<lambda>m. map (\<lambda>sculpture. (sculpture, m))
                                    (filter (\<lambda>sculpture. material sculpture = Some (material_id m)
                                                         \<or> material sculpture = Some (material_name m))
                                       works))
                                  matchingMaterials)), svc'))))"

definition getSculpturesByPeriod ::
  "files \<Rightarrow> JsonDataService \<Rightarrow> string \<Rightarrow> (error + (Sculpture \<times> Period) list) \<times> JsonDataService" where
  "getSculpturesByPeriod fs svc periodName =
     (let svc' = ensureLoaded fs svc in
      case data svc' of
        None \<Rightarrow> (Inr [], svc')
      | Some d \<Rightarrow>
          (let periodNamePattern = toLowerCase periodName in
           case doc_periods d of
             None \<Rightarrow> (Inl TypeError, svc')
           | Some all \<Rightarrow>
               (let matchingPeriods =
                      filter (\<lambda>p. includes_str (toLowerCase (period_name p)) periodNamePattern) all
                in if matchingPeriods = [] then (Inr [], svc')
                   else case doc_sculptures d of
                          None \<Rightarrow> (Inl TypeError, svc')
                        | Some works \<Rightarrow>
                            (Inr (concat (map (\<lambda>p. map (\<lambda>sculpture. (sculpture, p))
                                    (filter (\<lambda>sculpture. period sculpture = Some (period_id p)
                                                         \<or> period sculpture = Some (period_name p))
                                       works))
                                  matchingPeriods)), svc'))))"

subsection \<open>Search\<close>

record SearchParams =
  param_name :: "string option"
  param_artist :: "string option"
  param_material :: "string option"
  param_period :: "string option"
  param_location :: "string option"

text \<open>
  The four \<open>find\<close> calls of the filter callback of \<open>searchSculptures\<close>, under the names of
  the constants they are bound to, on the collection they search.
\<close>

definition artistMatch :: "Artist list \<Rightarrow> Sculpture \<Rightarrow> Artist option" where
  "artistMatch all sculpture =
     find (\<lambda>a. artist_id a = artist sculpture \<or> artist_name a = artist sculpture) all"

definition materialMatch :: "Material list \<Rightarrow> Sculpture \<Rightarrow> Material option" where
  "materialMatch all sculpture =
     find (\<lambda>m. Some (material_id m) = material sculpture \<or> Some (material_name m) = material sculpture)
       all"

definition periodMatch :: "Period list \<Rightarrow> Sculpture \<Rightarrow> Period option" where
  "periodMatch all sculpture =
     find (\<lambda>p. Some (period_id p) = period sculpture \<or> Some (period_name p) = period sculpture)
       all"

definition locationMatch :: "Location list \<Rightarrow> Sculpture \<Rightarrow> Location option" where
  "locationMatch all sculpture =
     find (\<lambda>l. Some (location_id l) = location sculpture \<or> Some (location_name l) = location sculpture)
       all"

text \<open>
  \<open>!m || !m.name.toLowerCase().includes(q.toLowerCase())\<close> for a match \<open>m\<close> given by the
  name of the entity found, if any.
\<close>

fun noMatch :: "string option \<Rightarrow> string \<Rightarrow> bool" where
  "noMatch None q = True"
| "noMatch (Some n) q = (\<not> includes_str (toLowerCase n) (toLowerCase q))"

text \<open>
  The four guarded checks of the filter callback: whether the check makes the callback
  return \<open>false\<close>, or the \<open>TypeError\<close> of a missing collection. A guard \<open>if (params.x)\<close> is
  false for a criterion that is missing and for one that is the empty string.
\<close>

definition artistCheck :: "Document \<Rightarrow> SearchParams \<Rightarrow> Sculpture \<Rightarrow> error + bool" where
  "artistCheck d params sculpture =
     (case param_artist params of
        None \<Rightarrow> Inr False
      | Some q \<Rightarrow>
          if q = [] then Inr False
          else (case doc_artists d of
                  None \<Rightarrow> Inl TypeError
                | Some all \<Rightarrow> Inr (noMatch (map_option artist_name (artistMatch all sculpture)) q)))"

definition materialCheck :: "Document \<Rightarrow> SearchParams \<Rightarrow> Sculpture \<Rightarrow> error + bool" where
  "materialCheck d params sculpture =
     (case param_material params of
        None \<Rightarrow> Inr False
      | Some q \<Rightarrow>
          if q = [] then Inr False
          else (case doc_materials d of
                  None \<Rightarrow> Inl TypeError
                | Some all \<Rightarrow> Inr (noMatch (map_option material_name (materialMatch all sculpture)) q)))"

definition periodCheck :: "Document \<Rightarrow> SearchParams \<Rightarrow> Sculpture \<Rightarrow> error + bool" where
  "periodCheck d params sculpture =
     (case param_period params of
        None \<Rightarrow> Inr False
      | Some q \<Rightarrow>
          if q = [] then Inr False
          else (case doc_periods d of
                  None \<Rightarrow> Inl TypeError
                | Some all \<Rightarrow> Inr (noMatch (map_option period_name (periodMatch all sculpture)) q)))"

definition locationCheck :: "Document \<Rightarrow> SearchParams \<Rightarrow> Sculpture \<Rightarrow> error + bool" where
  "locationCheck d params sculpture =
     (case param_location params of
        None \<Rightarrow> Inr False
      | Some q \<Rightarrow>
          if q = [] then Inr False
          else (case doc_locations d of
                  None \<Rightarrow> Inl TypeError
                | Some all \<Rightarrow> Inr (noMatch (map_option location_name (locationMatch all sculpture)) q)))"

text \<open>
  The filter callback of \<open>searchSculptures\<close>: the name check, then the four checks in
  order, each returning \<open>false\<close> at once when it fails; a \<open>TypeError\<close> leaves the callback.
\<close>

definition searchFilter :: "Document \<Rightarrow> SearchParams \<Rightarrow> Sculpture \<Rightarrow> error + bool" where
  "searchFilter d params sculpture =
     (if (case param_name params of
            None \<Rightarrow> False
          | Some q \<Rightarrow> q \<noteq> [] \<and> \<not> includes_str (toLowerCase (sculpture_name sculpture)) (toLowerCase q))
      then Inr False
      else (case artistCheck d params sculpture of
              Inl e \<Rightarrow> Inl e
            | Inr failed \<Rightarrow>
          if failed then Inr False
          else (case materialCheck d params sculpture of
              Inl e \<Rightarrow> Inl e
            | Inr failed \<Rightarrow>
          if failed then Inr False
          else (case periodCheck d params sculpture of
              Inl e \<Rightarrow> Inl e
            | Inr failed \<Rightarrow>
          if failed then Inr False
          else (case locationCheck d params sculpture of
              Inl e \<Rightarrow> Inl e
            | Inr failed \<Rightarrow>
          if failed then Inr False
          else Inr True)))))"

text \<open>\<open>Array.prototype.filter\<close> with a callback that may raise: the first error leaves it.\<close>

fun filterE :: "('a \<Rightarrow> error + bool) \<Rightarrow> 'a list \<Rightarrow> error + 'a list" where
  "filterE keep [] = Inr []"
| "filterE keep (x # xs) =
     (case keep x of
        Inl e \<Rightarrow> Inl e
      | Inr k \<Rightarrow>
          (case filterE keep xs of
             Inl e \<Rightarrow> Inl e
           | Inr ys \<Rightarrow> Inr (if k then x # ys else ys)))"

definition searchSculptures ::
  "files \<Rightarrow> JsonDataService \<Rightarrow> SearchParams \<Rightarrow> (error + Sculpture list) \<times> JsonDataService" where
  "searchSculptures fs svc params =
     (let svc' = ensureLoaded fs svc in
      case data svc' of
        None \<Rightarrow> (Inr [], svc')
      | Some d \<Rightarrow>
          (case doc_sculptures d of
             None \<Rightarrow> (Inl TypeError, svc')
           | Some all \<Rightarrow> (filterE (searchFilter d params) all, svc')))"

subsection \<open>Entities by id\<close>





section \<open>The session coordinator (\<open>RTSession\<close>)\<close>

subsection \<open>Frames, remote calls and the session state\<close>

type_synonym byte = "8 word"

datatype ControlMessage = SpeechStarted | Connected string | TextDone string

datatype WSMessage =
    TextDelta string string
  | Transcription string string
  | UserMessage string string
  | Control ControlMessage

text \<open>
  What \<open>ws.send\<close> is given: the JSON text of a message (kept as the message it encodes) or
  raw bytes with \<open>binary: true\<close>.
\<close>

datatype frame = TextFrame WSMessage | BinaryFrame "byte list"

datatype role = System | User

text \<open>
  A call on the remote session: \<open>sendItem\<close> of a message item with one \<open>input_text\<close> part,
  or \<open>generateResponse\<close>.
\<close>

datatype rt_call = SendItem role string | GenerateResponse

text \<open>
  The session keeps its data service, the calls it has issued on the remote session (in
  order, whether the remote accepted them or not) and the frames it has handed to the
  WebSocket (in order).
\<close>

record RTSession =
  dataService :: "JsonDataService option"
  client_calls :: "rt_call list"
  ws_sent :: "frame list"

text \<open>
  The world around a session: the files, \<open>JSON.parse\<close> on a client message, and the remote
  session, which rejects a call or not, given the calls issued before it.
\<close>

record world =
  disk :: files
  parseMessage :: "string \<Rightarrow> error + WSMessage"
  rejects :: "rt_call list \<Rightarrow> rt_call \<Rightarrow> bool"

definition send :: "RTSession \<Rightarrow> WSMessage \<Rightarrow> RTSession" where
  "send s message = s\<lparr>ws_sent := ws_sent s @ [TextFrame message]\<rparr>"

definition sendBinary :: "RTSession \<Rightarrow> byte list \<Rightarrow> RTSession" where
  "sendBinary s message = s\<lparr>ws_sent := ws_sent s @ [BinaryFrame message]\<rparr>"

definition client_call :: "world \<Rightarrow> RTSession \<Rightarrow> rt_call \<Rightarrow> (error + unit) \<times> RTSession" where
  "client_call w s c =
     (let s' = s\<lparr>client_calls := client_calls s @ [c]\<rparr> in
      if rejects w (client_calls s) c then (Inl RemoteError, s') else (Inr (), s'))"

subsection \<open>Term extraction\<close>

definition extractTermsFromText :: "string \<Rightarrow> string list \<Rightarrow> string list" where
  "extractTermsFromText text terms =
     (let lowerText = toLowerCase text in
      filter (\<lambda>term. includes_str lowerText (toLowerCase term)) terms)"

definition commonSculptures :: "string list" where
  "commonSculptures =
     [''David'', ''Pieta'', ''Venus de Milo'', ''The Thinker'', ''Ecstasy of Saint Teresa'',
      ''Bust of Nefertiti'', ''Terracotta Army'', ''Winged Victory'',
      ''Perseus with the Head of Medusa'', ''Statue of Liberty'', ''Christ the Redeemer'',
      ''Burghers of Calais'']"

definition commonArtists :: "string list" where
  "commonArtists =
     [''Michelangelo'', ''Bernini'', ''Rodin'', ''Donatello'', ''Alexandros'', ''Antioch'',
      ''Gian Lorenzo Bernini'', ''Auguste Rodin'']"

definition commonMaterials :: "string list" where
  "commonMaterials = [''marble'', ''bronze'', ''stone'', ''wood'', ''clay'', ''terracotta'', ''steel'']"

definition commonPeriods :: "string list" where
  "commonPeriods = [''Renaissance'', ''Baroque'', ''Classical'', ''Hellenistic'', ''Modern'']"

definition extractSculptureTerms :: "string \<Rightarrow> string list" where
  "extractSculptureTerms text = extractTermsFromText text commonSculptures"

definition extractArtistTerms :: "string \<Rightarrow> string list" where
  "extractArtistTerms text = extractTermsFromText text commonArtists"

definition extractMaterialTerms :: "string \<Rightarrow> string list" where
  "extractMaterialTerms text = extractTermsFromText text commonMaterials"

definition extractPeriodTerms :: "string \<Rightarrow> string list" where
  "extractPeriodTerms text = extractTermsFromText text commonPeriods"

subsection \<open>Context formatting\<close>

definition nl :: string where
  "nl = [CHR 0x0A]"

text \<open>\<open>if (x.f) info += `Label: ${x.f}\n`\<close>: nothing for a missing or empty property.\<close>

fun optLine :: "string \<Rightarrow> string option \<Rightarrow> string" where
  "optLine label None = []"
| "optLine label (Some v) = (if v \<noteq> [] then label @ v @ nl else [])"

definition formatSculptureInfo :: "Sculpture list \<Rightarrow> string" where
  "formatSculptureInfo results =
     foldl (\<lambda>info sculpture. info
              @ ''Name: '' @ sculpture_name sculpture @ nl
              @ optLine ''Artist: '' (Some (artist sculpture))
              @ optLine ''Year: '' (year sculpture)
              @ optLine ''Material: '' (material sculpture)
              @ optLine ''Location: '' (location sculpture)
              @ optLine ''Description: '' (description sculpture)
              @ optLine ''Image URL: '' (imageUrl sculpture)
              @ optLine ''Visual Description: '' (visualDescription sculpture)
              @ nl)
       (nl @ nl @ ''SCULPTURE INFORMATION:'' @ nl) results"

definition formatArtistSculptureInfo :: "(Sculpture \<times> Artist) list \<Rightarrow> string" where
  "formatArtistSculptureInfo results =
     foldl (\<lambda>info (sculpture, a). info
              @ ''Artist: '' @ artist_name a @ nl
              @ optLine ''Born: '' (birthYear a)
              @ optLine ''Died: '' (deathYear a)
              @ optLine ''Nationality: '' (nationality a)
              @ optLine ''Biography: '' (bio a)
              @ nl @ ''Sculpture: '' @ sculpture_name sculpture @ nl
              @ optLine ''Year: '' (year sculpture)
              @ optLine ''Material: '' (material sculpture)
              @ optLine ''Location: '' (location sculpture)
              @ optLine ''Description: '' (description sculpture)
              @ optLine ''Image URL: '' (imageUrl sculpture)
              @ optLine ''Visual Description: '' (visualDescription sculpture)
              @ nl)
       (nl @ nl @ ''ARTIST AND SCULPTURE INFORMATION:'' @ nl) results"

definition formatMaterialSculptureInfo :: "(Sculpture \<times> Material) list \<Rightarrow> string" where
  "formatMaterialSculptureInfo results =
     foldl (\<lambda>info (sculpture, m). info
              @ ''Material: '' @ material_name m @ nl
              @ optLine ''Properties: '' (properties m)
              @ optLine ''Common Uses: '' (uses m)
              @ nl @ ''Sculpture: '' @ sculpture_name sculpture @ nl
              @ optLine ''Artist: '' (Some (artist sculpture))
              @ optLine ''Year: '' (year sculpture)
              @ optLine ''Location: '' (location sculpture)
              @ optLine ''Description: '' (description sculpture)
              @ optLine ''Image URL: '' (imageUrl sculpture)
              @ optLine ''Visual Description: '' (visualDescription sculpture)
              @ nl)
       (nl @ nl @ ''MATERIAL AND SCULPTURE INFORMATION:'' @ nl) results"

definition formatPeriodSculptureInfo :: "(Sculpture \<times> Period) list \<Rightarrow> string" where
  "formatPeriodSculptureInfo results =
     foldl (\<lambda>info (sculpture, p). info
              @ ''Period: '' @ period_name p @ nl
              @ optLine ''Started: '' (startYear p)
              @ optLine ''Ended: '' (endYear p)
              @ optLine ''Characteristics: '' (characteristics p)
              @ nl @ ''Sculpture: '' @ sculpture_name sculpture @ nl
              @ optLine ''Artist: '' (Some (artist sculpture))
              @ optLine ''Year: '' (year sculpture)
              @ optLine ''Material: '' (material sculpture)
              @ optLine ''Location: '' (location sculpture)
              @ optLine ''Description: '' (description sculpture)
              @ optLine ''Image URL: '' (imageUrl sculpture)
              @ optLine ''Visual Description: '' (visualDescription sculpture)
              @ nl)
       (nl @ nl @ ''PERIOD AND SCULPTURE INFORMATION:'' @ nl) results"

subsection \<open>Enrichment\<close>

text \<open>
  One \<open>for\<close> loop of \<open>enrichWithSculptureData\<close> over the mentions of a category. The
  state is \<open>hasRelevantResults\<close>, \<open>contextMessage\<close> and the data service; the loop leaves
  (\<open>break\<close>) at the first term whose lookup gives a non-empty result, and an error raised
  by a lookup leaves the loop and the \<open>try\<close> block.
\<close>

fun tryTerms ::
  "(JsonDataService \<Rightarrow> string \<Rightarrow> (error + 'r list) \<times> JsonDataService) \<Rightarrow> ('r list \<Rightarrow> string)
     \<Rightarrow> string list \<Rightarrow> bool \<times> string \<times> JsonDataService
     \<Rightarrow> (error + bool \<times> string) \<times> JsonDataService" where
  "tryTerms lookup format [] (hasRelevantResults, contextMessage, svc) =
     (Inr (hasRelevantResults, contextMessage), svc)"
| "tryTerms lookup format (t # ts) (hasRelevantResults, contextMessage, svc) =
     (case lookup svc t of
        (Inl e, svc') \<Rightarrow> (Inl e, svc')
      | (Inr results, svc') \<Rightarrow>
          if results \<noteq> [] then (Inr (True, contextMessage @ format results), svc')
          else tryTerms lookup format ts (hasRelevantResults, contextMessage, svc'))"

definition contextIntro :: string where
  "contextIntro = ''Here is relevant information about the sculptures from the database: ''"

text \<open>
  The body of the \<open>try\<close> block of \<open>enrichWithSculptureData\<close>, for a session whose data service
  is \<open>svc\<close>: the four guarded loops, then the submission of the context item. It raises
  when a lookup raises or when the remote session rejects the context item; the session is
  given as it is at that moment. (The user message is a string, as \<open>UserMessage\<close> declares;
  the interleaving with the initial load of the data service is a matter of scheduling and
  is not part of the model.)
\<close>

definition enrich_try ::
  "world \<Rightarrow> RTSession \<Rightarrow> JsonDataService \<Rightarrow> string \<Rightarrow> (error + unit) \<times> RTSession" where
  "enrich_try w s svc userMessage =
     (let sculptureMentions = extractSculptureTerms userMessage;
          artistMentions = extractArtistTerms userMessage;
          materialMentions = extractMaterialTerms userMessage;
          periodMentions = extractPeriodTerms userMessage
      in
      case (if sculptureMentions \<noteq> []
            then tryTerms (findSculptureByName (disk w)) formatSculptureInfo sculptureMentions
                   (False, [], svc)
            else (Inr (False, []), svc)) of
        (Inl e, svc1) \<Rightarrow> (Inl e, s\<lparr>dataService := Some svc1\<rparr>)
      | (Inr (has1, context1), svc1) \<Rightarrow>
      (case (if \<not> has1 \<and> artistMentions \<noteq> []
             then tryTerms (getSculpturesByArtist (disk w)) formatArtistSculptureInfo artistMentions
                    (has1, context1, svc1)
             else (Inr (has1, context1), svc1)) of
        (Inl e, svc2) \<Rightarrow> (Inl e, s\<lparr>dataService := Some svc2\<rparr>)
      | (Inr (has2, context2), svc2) \<Rightarrow>
      (case (if \<not> has2 \<and> materialMentions \<noteq> []
             then tryTerms (getSculpturesByMaterial (disk w)) formatMaterialSculptureInfo materialMentions
                    (has2, context2, svc2)
             else (Inr (has2, context2), svc2)) of
        (Inl e, svc3) \<Rightarrow> (Inl e, s\<lparr>dataService := Some svc3\<rparr>)
      | (Inr (has3, context3), svc3) \<Rightarrow>
      (case (if \<not> has3 \<and> periodMentions \<noteq> []
             then tryTerms (getSculpturesByPeriod (disk w)) formatPeriodSculptureInfo periodMentions
                    (has3, context3, svc3)
             else (Inr (has3, context3), svc3)) of
        (Inl e, svc4) \<Rightarrow> (Inl e, s\<lparr>dataService := Some svc4\<rparr>)
      | (Inr (hasRelevantResults, contextMessage), svc4) \<Rightarrow>
          (let s' = s\<lparr>dataService := Some svc4\<rparr> in
           if hasRelevantResults \<and> contextMessage \<noteq> []
           then client_call w s' (SendItem System (contextIntro @ contextMessage))
           else (Inr (), s'))))))"

text \<open>
  \<open>enrichWithSculptureData\<close>: nothing without a data service; otherwise the \<open>try\<close> block,
  whose error, if any, is caught and only logged.
\<close>

definition enrichWithSculptureData :: "world \<Rightarrow> RTSession \<Rightarrow> string \<Rightarrow> RTSession" where
  "enrichWithSculptureData w s userMessage =
     (case dataService s of
        None \<Rightarrow> s
      | Some svc \<Rightarrow>
          (case enrich_try w s svc userMessage of
             (Inl e, s') \<Rightarrow> s'
           | (Inr u, s') \<Rightarrow> s'))"

subsection \<open>Client text messages\<close>

text \<open>
  \<open>handleTextMessage\<close>: an error of \<open>JSON.parse\<close> leaves at once; only a \<open>user_message\<close> is
  acted upon; an error of the two remote calls is logged and thrown again.
\<close>

definition handleTextMessage :: "world \<Rightarrow> RTSession \<Rightarrow> string \<Rightarrow> (error + unit) \<times> RTSession" where
  "handleTextMessage w s messageString =
     (case parseMessage w messageString of
        Inl e \<Rightarrow> (Inl e, s)
      | Inr parsed \<Rightarrow>
          (case parsed of
             UserMessage ident text \<Rightarrow>
               (let s1 = (if dataService s \<noteq> None \<and> text \<noteq> []
                          then enrichWithSculptureData w s text else s)
                in case client_call w s1 (SendItem User text) of
                     (Inl e, s2) \<Rightarrow> (Inl e, s2)
                   | (Inr u, s2) \<Rightarrow> client_call w s2 GenerateResponse)
           | _ \<Rightarrow> (Inr (), s)))"

subsection \<open>Streamed content\<close>

text \<open>
  A chunk stream of the remote session, as the \<open>for await\<close> loop sees it: chunks in the
  order of their arrival, then the end of the stream or an error.
\<close>

datatype 'a chunks = Done | Fail error | Chunk 'a "'a chunks"

fun completed :: "'a list \<Rightarrow> 'a chunks" where
  "completed [] = Done"
| "completed (c # cs) = Chunk c (completed cs)"

record RTTextContent =
  itemId :: string
  contentIndex :: nat
  textChunks :: "string chunks"

text \<open>The decimal numeral of a number, as a template literal prints it.\<close>

definition digit_char :: "nat \<Rightarrow> char" where
  "digit_char n = ''0123456789'' ! n"

fun show_nat :: "nat \<Rightarrow> string" where
  "show_nat n = (if n < 10 then [digit_char n] else show_nat (n div 10) @ [digit_char (n mod 10)])"

declare show_nat.simps [simp del]

definition contentId :: "string \<Rightarrow> nat \<Rightarrow> string" where
  "contentId item index = item @ ''-'' @ show_nat index"

text \<open>The \<open>for await\<close> loop over text (or transcript) chunks: one \<open>text_delta\<close> per chunk.\<close>

fun sendDeltas :: "string \<Rightarrow> string chunks \<Rightarrow> RTSession \<Rightarrow> (error + unit) \<times> RTSession" where
  "sendDeltas cid Done s = (Inr (), s)"
| "sendDeltas cid (Fail e) s = (Inl e, s)"
| "sendDeltas cid (Chunk text rest) s = sendDeltas cid rest (send s (TextDelta cid text))"

definition handleTextContent :: "RTSession \<Rightarrow> RTTextContent \<Rightarrow> (error + unit) \<times> RTSession" where
  "handleTextContent s content =
     (let cid = contentId (itemId content) (contentIndex content) in
      case sendDeltas cid (textChunks content) s of
        (Inl e, s') \<Rightarrow> (Inl e, s')
      | (Inr u, s') \<Rightarrow> (Inr (), send s' (Control (TextDone cid))))"

text \<open>
  An audio chunk is a typed array: a window of \<open>byteLength\<close> bytes, from \<open>byteOffset\<close> on,
  of its \<open>buffer\<close>, which is an \<open>ArrayBuffer\<close> or a \<open>SharedArrayBuffer\<close>.
\<close>

record ArrayBufferLike =
  isArrayBuffer :: bool
  contents :: "byte list"

record TypedArray =
  buffer :: ArrayBufferLike
  byteOffset :: nat
  byteLength :: nat

definition chunk_bytes :: "TypedArray \<Rightarrow> byte list" where
  "chunk_bytes chunk = take (byteLength chunk) (drop (byteOffset chunk) (contents (buffer chunk)))"

definition well_formed_chunk :: "TypedArray \<Rightarrow> bool" where
  "well_formed_chunk chunk \<longleftrightarrow> byteOffset chunk + byteLength chunk \<le> length (contents (buffer chunk))"

text \<open>
  The argument of \<open>sendBinary\<close> in \<open>handleAudioChunks\<close>:
  \<open>chunk.buffer instanceof ArrayBuffer ? chunk.buffer
     : new ArrayBuffer(chunk.buffer.byteLength).slice(0)\<close>;
  a new \<open>ArrayBuffer\<close> holds zeros.
\<close>

definition audioPayload :: "TypedArray \<Rightarrow> byte list" where
  "audioPayload chunk =
     (if isArrayBuffer (buffer chunk) then contents (buffer chunk)
      else replicate (length (contents (buffer chunk))) 0)"

fun handleAudioChunks :: "TypedArray chunks \<Rightarrow> RTSession \<Rightarrow> (error + unit) \<times> RTSession" where
  "handleAudioChunks Done s = (Inr (), s)"
| "handleAudioChunks (Fail e) s = (Inl e, s)"
| "handleAudioChunks (Chunk chunk rest) s = handleAudioChunks rest (sendBinary s (audioPayload chunk))"

definition handleAudioTranscript ::
  "string \<Rightarrow> nat \<Rightarrow> string chunks \<Rightarrow> RTSession \<Rightarrow> (error + unit) \<times> RTSession" where
  "handleAudioTranscript item index transcript s =
     (let cid = contentId item index in
      case sendDeltas cid transcript s of
        (Inl e, s') \<Rightarrow> (Inl e, s')
      | (Inr u, s') \<Rightarrow> (Inr (), send s' (Control (TextDone cid))))"

section \<open>The words of the specification\<close>

text \<open>
  Resolution as the specification words it: the first entity whose id is the reference and,
  only if there is none, the first entity whose name is the reference.
\<close>

definition resolve_id_then_name ::
  "('e \<Rightarrow> string) \<Rightarrow> ('e \<Rightarrow> string) \<Rightarrow> 'e list \<Rightarrow> string option \<Rightarrow> 'e option" where
  "resolve_id_then_name ident name xs r =
     (case find (\<lambda>e. Some (ident e) = r) xs of
        Some e \<Rightarrow> Some e
      | None \<Rightarrow> find (\<lambda>e. Some (name e) = r) xs)"

text \<open>
  The criteria of a search as the specification words them: the name criterion looks for
  the value in the name of the sculpture, every other criterion in the name of the entity
  that the reference of the sculpture resolves to, and fails without such an entity.
\<close>

definition name_passes :: "string option \<Rightarrow> string \<Rightarrow> bool" where
  "name_passes criterion name =
     (case criterion of
        None \<Rightarrow> True
      | Some q \<Rightarrow> includes_str (toLowerCase name) (toLowerCase q))"

definition related_passes :: "string option \<Rightarrow> string option \<Rightarrow> bool" where
  "related_passes criterion resolved =
     (case criterion of
        None \<Rightarrow> True
      | Some q \<Rightarrow>
          (case resolved of
             None \<Rightarrow> False
           | Some n \<Rightarrow> includes_str (toLowerCase n) (toLowerCase q)))"

definition every_criterion_passes :: "SculptureData \<Rightarrow> SearchParams \<Rightarrow> Sculpture \<Rightarrow> bool" where
  "every_criterion_passes d params s \<longleftrightarrow>
     name_passes (param_name params) (sculpture_name s)
     \<and> related_passes (param_artist params) (map_option artist_name (artistMatch (artists d) s))
     \<and> related_passes (param_material params) (map_option material_name (materialMatch (materials d) s))
     \<and> related_passes (param_period params) (map_option period_name (periodMatch (periods d) s))
     \<and> related_passes (param_location params) (map_option location_name (locationMatch (locations d) s))"

text \<open>A criterion given as the empty string, taken as not supplied.\<close>

definition nonempty :: "string option \<Rightarrow> string option" where
  "nonempty criterion = (if criterion = Some [] then None else criterion)"

definition supplied_nonempty :: "SearchParams \<Rightarrow> SearchParams" where
  "supplied_nonempty params =
     \<lparr>param_name = nonempty (param_name params), param_artist = nonempty (param_artist params),
      param_material = nonempty (param_material params), param_period = nonempty (param_period params),
      param_location = nonempty (param_location params)\<rparr>"

text \<open>
  Enrichment as the specification words it. A category yields the result of the first of
  its candidate terms, in extraction order, whose lookup is not empty; the context is the
  formatted result of the first category that yields, in the order sculpture name, artist,
  material, period. A lookup that raises before a term has yielded ends the selection with
  its error, and then there is no context.
\<close>

definition first_yield :: "(string \<Rightarrow> error + 'r list) \<Rightarrow> string list \<Rightarrow> error + 'r list option" where
  "first_yield lookup terms =
     (case find (\<lambda>t. lookup t \<noteq> Inr []) terms of
        None \<Rightarrow> Inr None
      | Some t \<Rightarrow> (case lookup t of Inl e \<Rightarrow> Inl e | Inr r \<Rightarrow> Inr (Some r)))"

definition selection :: "files \<Rightarrow> JsonDataService \<Rightarrow> string \<Rightarrow> error + string option" where
  "selection fs svc text =
     (case first_yield (\<lambda>t. fst (findSculptureByName fs svc t)) (extractSculptureTerms text) of
        Inl e \<Rightarrow> Inl e
      | Inr (Some r) \<Rightarrow> Inr (Some (formatSculptureInfo r))
      | Inr None \<Rightarrow>
     (case first_yield (\<lambda>t. fst (getSculpturesByArtist fs svc t)) (extractArtistTerms text) of
        Inl e \<Rightarrow> Inl e
      | Inr (Some r) \<Rightarrow> Inr (Some (formatArtistSculptureInfo r))
      | Inr None \<Rightarrow>
     (case first_yield (\<lambda>t. fst (getSculpturesByMaterial fs svc t)) (extractMaterialTerms text) of
        Inl e \<Rightarrow> Inl e
      | Inr (Some r) \<Rightarrow> Inr (Some (formatMaterialSculptureInfo r))
      | Inr None \<Rightarrow>
     (case first_yield (\<lambda>t. fst (getSculpturesByPeriod fs svc t)) (extractPeriodTerms text) of
        Inl e \<Rightarrow> Inl e
      | Inr (Some r) \<Rightarrow> Inr (Some (formatPeriodSculptureInfo r))
      | Inr None \<Rightarrow> Inr None))))"

definition selected_context :: "files \<Rightarrow> JsonDataService \<Rightarrow> string \<Rightarrow> string option" where
  "selected_context fs svc text =
     (case selection fs svc text of
        Inl e \<Rightarrow> None
      | Inr c \<Rightarrow> c)"

text \<open>The system-role items that enrichment submits: one for the selected context, if any.\<close>

definition context_items :: "files \<Rightarrow> JsonDataService \<Rightarrow> string \<Rightarrow> rt_call list" where
  "context_items fs svc text =
     (case selected_context fs svc text of
        None \<Rightarrow> []
      | Some c \<Rightarrow> [SendItem System (contextIntro @ c)])"

text \<open>The context that enrichment selects for a session: none without a data service.\<close>

definition enrichment_context :: "world \<Rightarrow> RTSession \<Rightarrow> string \<Rightarrow> string option" where
  "enrichment_context w s text =
     (case dataService s of
        None \<Rightarrow> None
      | Some svc \<Rightarrow> selected_context (disk w) svc text)"

section \<open>Example data\<close>

definition ex_michelangelo :: Artist where
  "ex_michelangelo = \<lparr>artist_id = ''a1'', artist_name = ''Michelangelo'', birthYear = Some ''1475'',
     deathYear = Some ''1564'', nationality = None, bio = None\<rparr>"

definition ex_alias :: Artist where
  "ex_alias = \<lparr>artist_id = ''a0'', artist_name = ''a1'', birthYear = None,
     deathYear = None, nationality = None, bio = None\<rparr>"

definition ex_marble :: Material where
  "ex_marble = \<lparr>material_id = ''m1'', material_name = ''Marble'', properties = None, uses = None\<rparr>"

definition ex_david :: Sculpture where
  "ex_david = \<lparr>sculpture_id = ''s1'', sculpture_name = ''David'', artist = ''a1'', year = Some ''1504'',
     material = Some ''m1'', period = None, location = None, description = None, imageUrl = None,
     visualDescription = None\<rparr>"

definition ex_orphan :: Sculpture where
  "ex_orphan = \<lparr>sculpture_id = ''s2'', sculpture_name = ''Untitled'', artist = ''nobody'', year = None,
     material = None, period = None, location = None, description = None, imageUrl = None,
     visualDescription = None\<rparr>"

definition ex_data :: SculptureData where
  "ex_data = \<lparr>sculptures = [ex_david, ex_orphan], artists = [ex_michelangelo],
     materials = [ex_marble], periods = [], locations = []\<rparr>"

definition ex_data_alias :: SculptureData where
  "ex_data_alias = ex_data\<lparr>artists := [ex_alias, ex_michelangelo]\<rparr>"

definition fs_missing :: files where
  "fs_missing = \<lparr>readFile = (\<lambda>p. Inl IOError), parseData = (\<lambda>t. Inl SyntaxError)\<rparr>"

definition fs_present :: files where
  "fs_present = \<lparr>readFile = (\<lambda>p. if p = ''data/sculptures.json'' then Inr ''[dataset]'' else Inl IOError),
     parseData = (\<lambda>t. if t = ''[dataset]'' then Inr (Some (document ex_data)) else Inl SyntaxError)\<rparr>"

definition svc_unset :: JsonDataService where
  "svc_unset = \<lparr>data = None, dataPath = ''data/sculptures.json''\<rparr>"

definition svc_loaded :: JsonDataService where
  "svc_loaded = \<lparr>data = Some (document ex_data), dataPath = ''data/sculptures.json''\<rparr>"

definition svc_alias :: JsonDataService where
  "svc_alias = \<lparr>data = Some (document ex_data_alias), dataPath = ''data/sculptures.json''\<rparr>"

definition ex_sculptures_only :: Document where
  "ex_sculptures_only = \<lparr>doc_sculptures = Some [ex_david], doc_artists = None, doc_materials = None,
     doc_periods = None, doc_locations = None\<rparr>"


definition fs_sculptures_only :: files where
  "fs_sculptures_only = \<lparr>readFile = (\<lambda>p. Inr ''[sculptures only]''),
     parseData = (\<lambda>t. Inr (Some ex_sculptures_only))\<rparr>"


definition fs_null :: files where
  "fs_null = \<lparr>readFile = (\<lambda>p. Inr ''null''), parseData = (\<lambda>t. Inr None)\<rparr>"

definition svc_sculptures_only :: JsonDataService where
  "svc_sculptures_only = \<lparr>data = Some ex_sculptures_only, dataPath = ''data/sculptures.json''\<rparr>"

definition no_criteria :: SearchParams where
  "no_criteria = \<lparr>param_name = None, param_artist = None, param_material = None,
     param_period = None, param_location = None\<rparr>"

definition empty_artist_criterion :: SearchParams where
  "empty_artist_criterion = no_criteria\<lparr>param_artist := Some []\<rparr>"

definition marble_criterion :: SearchParams where
  "marble_criterion = no_criteria\<lparr>param_material := Some ''MARBLE''\<rparr>"

definition ex_session :: RTSession where
  "ex_session = \<lparr>dataService = Some svc_loaded, client_calls = [], ws_sent = []\<rparr>"

definition ex_world :: world where
  "ex_world = \<lparr>disk = fs_present,
     parseMessage = (\<lambda>m. if take 5 m = ''text:'' then Inr (UserMessage ''u1'' (drop 5 m)) else Inl SyntaxError),
     rejects = (\<lambda>issued c. False)\<rparr>"

definition ex_world_refusing_context :: world where
  "ex_world_refusing_context = ex_world\<lparr>rejects := (\<lambda>issued c. case c of SendItem r t \<Rightarrow> r = System | GenerateResponse \<Rightarrow> False)\<rparr>"

definition ex_world_down :: world where
  "ex_world_down = ex_world\<lparr>rejects := (\<lambda>issued c. True)\<rparr>"

definition ex_session_sculptures_only :: RTSession where
  "ex_session_sculptures_only = \<lparr>dataService = Some svc_sculptures_only, client_calls = [], ws_sent = []\<rparr>"

definition ex_text_content :: RTTextContent where
  "ex_text_content = \<lparr>itemId = ''item_1'', contentIndex = 0, textChunks = completed [''Hel'', ''lo'', ''!'']\<rparr>"

definition ex_window :: TypedArray where
  "ex_window = \<lparr>buffer = \<lparr>isArrayBuffer = True, contents = [1, 2, 3, 4]\<rparr>, byteOffset = 1, byteLength = 2\<rparr>"

definition ex_shared :: TypedArray where
  "ex_shared = \<lparr>buffer = \<lparr>isArrayBuffer = False, contents = [7, 9]\<rparr>, byteOffset = 0, byteLength = 2\<rparr>"

section \<open>Properties of the entity store\<close>

subsection \<open>Strings and loading\<close>

lemma includes_str_Nil [simp]: "includes_str s []"
  by (cases s) simp_all

lemma includes_str_sublist: "includes_str s p = sublist p s"
  by (induction s) (simp_all add: sublist_Cons_right)

lemma ensureLoaded_loaded [simp]: "data svc = Some d \<Longrightarrow> ensureLoaded fs svc = svc"
  by (simp add: ensureLoaded_def)

lemma loadData_cases:
  "loadData fs svc =
     (case readFile fs (dataPath svc) of
        Inl e \<Rightarrow> (False, svc)
      | Inr c \<Rightarrow> (case parseData fs c of Inl e \<Rightarrow> (False, svc) | Inr parsed \<Rightarrow> (True, svc\<lparr>data := parsed\<rparr>)))"
  by (simp add: loadData_def loadData_try_def split: sum.splits)

text \<open>
  Claim C6, as amended. \<open>loadData\<close> reports failure exactly when reading the file fails or
  parsing its content fails, and then the service is exactly as it was before the call (with
  its previous snapshot, if it had one, and unset otherwise). When both succeed it reports
  success and replaces the store, in one step, by exactly the value that was parsed, whose
  shape it does not check: a document of the declared shape becomes the snapshot as a whole,
  a document that lacks collections is installed as it is, and \<open>null\<close> leaves the store unset.
\<close>
theorem loadData_atomic:
  "(fst (loadData fs svc) = False \<longrightarrow> snd (loadData fs svc) = svc) \<and>
   (fst (loadData fs svc) = False \<longleftrightarrow>
      (\<exists>e. readFile fs (dataPath svc) = Inl e)
      \<or> (\<exists>c e. readFile fs (dataPath svc) = Inr c \<and> parseData fs c = Inl e)) \<and>
   (\<forall>c parsed. readFile fs (dataPath svc) = Inr c \<longrightarrow> parseData fs c = Inr parsed \<longrightarrow>
      loadData fs svc = (True, svc\<lparr>data := parsed\<rparr>))"
  by (auto simp: loadData_cases split: sum.splits)

text \<open>
  A failing load over a loaded service keeps the snapshot; a successful load of an unset
  service installs the document.
\<close>
theorem loadData_atomic_witness:
  "fst (loadData fs_missing svc_loaded) = False \<and> snd (loadData fs_missing svc_loaded) = svc_loaded
   \<and> loadData fs_present svc_unset = (True, svc_unset\<lparr>data := Some (document ex_data)\<rparr>)"
proof -
  have r: "readFile fs_present (dataPath svc_unset) = Inr ''[dataset]''"
    by (simp add: fs_present_def svc_unset_def)
  have p: "parseData fs_present ''[dataset]'' = Inr (Some (document ex_data))"
    by (simp add: fs_present_def)
  have f: "readFile fs_missing (dataPath svc_loaded) = Inl IOError"
    by (simp add: fs_missing_def)
  from loadData_atomic [of fs_missing svc_loaded] f
  have "fst (loadData fs_missing svc_loaded) = False \<and> snd (loadData fs_missing svc_loaded) = svc_loaded"
    by blast
  moreover from loadData_atomic [of fs_present svc_unset] r p
  have "loadData fs_present svc_unset = (True, svc_unset\<lparr>data := Some (document ex_data)\<rparr>)"
    by blast
  ultimately show ?thesis by simp
qed

text \<open>
  Claim C6 as stated fails. A file that holds only the sculptures loads with success and
  leaves the store with sculptures and no artists, that is, partially loaded; a file that
  holds \<open>null\<close> loads with success over a loaded store and leaves it unset.
\<close>
theorem load_unchecked_counterexample:
  "loadData fs_sculptures_only svc_unset = (True, svc_unset\<lparr>data := Some ex_sculptures_only\<rparr>)
   \<and> doc_sculptures ex_sculptures_only = Some [ex_david]
   \<and> doc_artists ex_sculptures_only = None
   \<and> loadData fs_null svc_loaded = (True, svc_loaded\<lparr>data := None\<rparr>)"
  by (simp add: loadData_cases fs_sculptures_only_def fs_null_def ex_sculptures_only_def)

subsection \<open>Lookups on a document of the declared shape\<close>

lemma document_collections [simp]:
  "doc_sculptures (document d) = Some (sculptures d)"
  "doc_artists (document d) = Some (artists d)"
  "doc_materials (document d) = Some (materials d)"
  "doc_periods (document d) = Some (periods d)"
  "doc_locations (document d) = Some (locations d)"
  by (simp_all add: document_def)

lemma filter_Nil_concat: "filter P xs = [] \<Longrightarrow> concat (map f (filter P xs)) = []"
  by simp

lemma lookups_document:
  assumes "data svc = Some (document d)"
  shows "findSculptureByName fs svc q
           = (Inr (filter (\<lambda>sculpture. includes_str (toLowerCase (sculpture_name sculpture)) (toLowerCase q))
                     (sculptures d)), svc)"
    and "getSculpturesByArtist fs svc q
           = (Inr (concat (map (\<lambda>a. map (\<lambda>sculpture. (sculpture, a))
                       (filter (\<lambda>sculpture. artist sculpture = artist_id a \<or> artist sculpture = artist_name a)
                          (sculptures d)))
                     (filter (\<lambda>a. includes_str (toLowerCase (artist_name a)) (toLowerCase q)) (artists d)))),
              svc)"
    and "getSculpturesByMaterial fs svc q
           = (Inr (concat (map (\<lambda>m. map (\<lambda>sculpture. (sculpture, m))
                       (filter (\<lambda>sculpture. material sculpture = Some (material_id m)
                                            \<or> material sculpture = Some (material_name m))
                          (sculptures d)))
                     (filter (\<lambda>m. includes_str (toLowerCase (material_name m)) (toLowerCase q)) (materials d)))),
              svc)"
    and "getSculpturesByPeriod fs svc q
           = (Inr (concat (map (\<lambda>p. map (\<lambda>sculpture. (sculpture, p))
                       (filter (\<lambda>sculpture. period sculpture = Some (period_id p)
                                            \<or> period sculpture = Some (period_name p))
                          (sculptures d)))
                     (filter (\<lambda>p. includes_str (toLowerCase (period_name p)) (toLowerCase q)) (periods d)))),
              svc)"
  using assms
  by (simp_all add: findSculptureByName_def getSculpturesByArtist_def getSculpturesByMaterial_def
      getSculpturesByPeriod_def Let_def)

subsection \<open>Search without criteria\<close>

lemma filterE_total: "(\<And>x. x \<in> set xs \<Longrightarrow> keep x = Inr (p x)) \<Longrightarrow> filterE keep xs = Inr (filter p xs)"
  by (induction xs) simp_all

lemma searchFilter_no_criteria [simp]: "searchFilter d no_criteria sculpture = Inr True"
  by (simp add: searchFilter_def artistCheck_def materialCheck_def periodCheck_def locationCheck_def
      no_criteria_def)

text \<open>
  Claim C10. On a loaded store, \<open>searchSculptures\<close> with no criterion supplied returns every
  sculpture of the store, in store order (and leaves the store as it is).
\<close>
theorem search_no_criteria:
  "data svc = Some (document d) \<Longrightarrow> searchSculptures fs svc no_criteria = (Inr (sculptures d), svc)"
  by (simp add: searchSculptures_def filterE_total [where p = "\<lambda>x. True"])

theorem search_no_criteria_witness:
  "searchSculptures fs_missing svc_loaded no_criteria = (Inr [ex_david, ex_orphan], svc_loaded)"
  using search_no_criteria [of svc_loaded ex_data fs_missing]
  by (simp add: svc_loaded_def ex_data_def)


subsection \<open>Lookups on an unset store\<close>








subsection \<open>Resolution of references\<close>

lemma find_Some_holds: "find P xs = Some x \<Longrightarrow> P x"
  by (induction xs) (auto split: if_splits)

lemma find_skip: "\<forall>y\<in>set ys. \<not> P y \<Longrightarrow> find P (ys @ zs) = find P zs"
  by (induction ys) simp_all

lemma find_Some_split:
  "find P xs = Some x \<longleftrightarrow> (\<exists>ys zs. xs = ys @ x # zs \<and> P x \<and> (\<forall>y\<in>set ys. \<not> P y))"
proof
  show "find P xs = Some x \<Longrightarrow> \<exists>ys zs. xs = ys @ x # zs \<and> P x \<and> (\<forall>y\<in>set ys. \<not> P y)"
  proof (induction xs)
    case Nil
    then show ?case by simp
  next
    case (Cons a xs)
    show ?case
    proof (cases "P a")
      case True
      with Cons.prems have "a # xs = [] @ x # xs \<and> P x \<and> (\<forall>y\<in>set []. \<not> P y)"
        by simp
      then show ?thesis by blast
    next
      case False
      with Cons.prems have "find P xs = Some x"
        by simp
      then obtain ys zs where "xs = ys @ x # zs" "P x" "\<forall>y\<in>set ys. \<not> P y"
        using Cons.IH by blast
      with False have "a # xs = (a # ys) @ x # zs \<and> P x \<and> (\<forall>y\<in>set (a # ys). \<not> P y)"
        by simp
      then show ?thesis by blast
    qed
  qed
next
  assume "\<exists>ys zs. xs = ys @ x # zs \<and> P x \<and> (\<forall>y\<in>set ys. \<not> P y)"
  then obtain ys zs where "xs = ys @ x # zs" "P x" "\<forall>y\<in>set ys. \<not> P y"
    by blast
  then show "find P xs = Some x"
    by (simp add: find_skip)
qed

lemma find_either_vs_priority:
  "(find (\<lambda>e. P e \<or> Q e) xs = (case find P xs of Some e \<Rightarrow> Some e | None \<Rightarrow> find Q xs))
     \<longleftrightarrow> (find P xs = None \<or> (\<exists>e. find (\<lambda>e. P e \<or> Q e) xs = Some e \<and> P e))"
proof (induction xs)
  case Nil
  then show ?case by simp
next
  case (Cons a xs)
  show ?case
  proof (cases "P a")
    case True
    then show ?thesis by simp
  next
    case notP: False
    show ?thesis
    proof (cases "Q a")
      case True
      have "find P xs \<noteq> Some a"
        using notP find_Some_holds [of P xs a] by blast
      with notP True show ?thesis
        by (auto split: option.splits)
    next
      case False
      with notP Cons.IH show ?thesis
        by (simp cong: option.case_cong)
    qed
  qed
qed



lemma by_related_pairs:
  "(x, e) \<in> set (concat (map (\<lambda>e. map (\<lambda>x. (x, e)) (filter (P e) xs)) (filter Q es)))
     \<longleftrightarrow> x \<in> set xs \<and> e \<in> set es \<and> Q e \<and> P e x"
  by auto

text \<open>
  Claim C4, as amended. In a search, for each of the four reference fields, the reference
  is resolved to the first entity of the referenced collection, in collection order, whose
  id equals the reference or whose name equals it (both case-sensitive and exact; ids and
  names are tried together, entity by entity); the result is the one of ``id first, then
  name'' exactly when no id equals the reference or the first entity that matches at all
  matches by its id. In the lookups by artist, by material and by period (there is none by
  location), on a loaded store, a sculpture is paired with every entity that matches the
  query and whose id or whose name equals the reference of the sculpture, with no
  precedence of the id.
\<close>
theorem reference_resolution:
  "(artistMatch (artists d) s = resolve_id_then_name artist_id artist_name (artists d) (Some (artist s))
      \<longleftrightarrow> find (\<lambda>a. artist_id a = artist s) (artists d) = None
          \<or> (\<exists>a. artistMatch (artists d) s = Some a \<and> artist_id a = artist s))
   \<and> (materialMatch (materials d) s = resolve_id_then_name material_id material_name (materials d) (material s)
      \<longleftrightarrow> find (\<lambda>m. Some (material_id m) = material s) (materials d) = None
          \<or> (\<exists>m. materialMatch (materials d) s = Some m \<and> Some (material_id m) = material s))
   \<and> (periodMatch (periods d) s = resolve_id_then_name period_id period_name (periods d) (period s)
      \<longleftrightarrow> find (\<lambda>p. Some (period_id p) = period s) (periods d) = None
          \<or> (\<exists>p. periodMatch (periods d) s = Some p \<and> Some (period_id p) = period s))
   \<and> (locationMatch (locations d) s = resolve_id_then_name location_id location_name (locations d) (location s)
      \<longleftrightarrow> find (\<lambda>l. Some (location_id l) = location s) (locations d) = None
          \<or> (\<exists>l. locationMatch (locations d) s = Some l \<and> Some (location_id l) = location s))
   \<and> (artistMatch (artists d) s = Some a
      \<longleftrightarrow> (\<exists>before after. artists d = before @ a # after
            \<and> (artist_id a = artist s \<or> artist_name a = artist s)
            \<and> (\<forall>b\<in>set before. artist_id b \<noteq> artist s \<and> artist_name b \<noteq> artist s)))
   \<and> (materialMatch (materials d) s = Some m
      \<longleftrightarrow> (\<exists>before after. materials d = before @ m # after
            \<and> (Some (material_id m) = material s \<or> Some (material_name m) = material s)
            \<and> (\<forall>b\<in>set before. Some (material_id b) \<noteq> material s \<and> Some (material_name b) \<noteq> material s)))
   \<and> (periodMatch (periods d) s = Some p
      \<longleftrightarrow> (\<exists>before after. periods d = before @ p # after
            \<and> (Some (period_id p) = period s \<or> Some (period_name p) = period s)
            \<and> (\<forall>b\<in>set before. Some (period_id b) \<noteq> period s \<and> Some (period_name b) \<noteq> period s)))
   \<and> (locationMatch (locations d) s = Some l
      \<longleftrightarrow> (\<exists>before after. locations d = before @ l # after
            \<and> (Some (location_id l) = location s \<or> Some (location_name l) = location s)
            \<and> (\<forall>b\<in>set before. Some (location_id b) \<noteq> location s \<and> Some (location_name b) \<noteq> location s)))
   \<and> (data svc = Some (document d) \<longrightarrow>
        (\<exists>pairs. getSculpturesByArtist fs svc q = (Inr pairs, svc)
           \<and> (\<forall>x e. (x, e) \<in> set pairs \<longleftrightarrow>
                 x \<in> set (sculptures d) \<and> e \<in> set (artists d)
                 \<and> includes_str (toLowerCase (artist_name e)) (toLowerCase q)
                 \<and> (artist x = artist_id e \<or> artist x = artist_name e)))
        \<and> (\<exists>pairs. getSculpturesByMaterial fs svc q = (Inr pairs, svc)
           \<and> (\<forall>x e. (x, e) \<in> set pairs \<longleftrightarrow>
                 x \<in> set (sculptures d) \<and> e \<in> set (materials d)
                 \<and> includes_str (toLowerCase (material_name e)) (toLowerCase q)
                 \<and> (material x = Some (material_id e) \<or> material x = Some (material_name e))))
        \<and> (\<exists>pairs. getSculpturesByPeriod fs svc q = (Inr pairs, svc)
           \<and> (\<forall>x e. (x, e) \<in> set pairs \<longleftrightarrow>
                 x \<in> set (sculptures d) \<and> e \<in> set (periods d)
                 \<and> includes_str (toLowerCase (period_name e)) (toLowerCase q)
                 \<and> (period x = Some (period_id e) \<or> period x = Some (period_name e)))))"
proof -
  have a1: "artistMatch (artists d) s = resolve_id_then_name artist_id artist_name (artists d) (Some (artist s))
      \<longleftrightarrow> find (\<lambda>a. artist_id a = artist s) (artists d) = None
          \<or> (\<exists>a. artistMatch (artists d) s = Some a \<and> artist_id a = artist s)"
    using find_either_vs_priority [of "\<lambda>a. artist_id a = artist s" "\<lambda>a. artist_name a = artist s" "artists d"]
    by (simp add: artistMatch_def resolve_id_then_name_def cong: option.case_cong)
  have m1: "materialMatch (materials d) s = resolve_id_then_name material_id material_name (materials d) (material s)
      \<longleftrightarrow> find (\<lambda>m. Some (material_id m) = material s) (materials d) = None
          \<or> (\<exists>m. materialMatch (materials d) s = Some m \<and> Some (material_id m) = material s)"
    using find_either_vs_priority [of "\<lambda>m. Some (material_id m) = material s"
        "\<lambda>m. Some (material_name m) = material s" "materials d"]
    by (simp add: materialMatch_def resolve_id_then_name_def)
  have p1: "periodMatch (periods d) s = resolve_id_then_name period_id period_name (periods d) (period s)
      \<longleftrightarrow> find (\<lambda>p. Some (period_id p) = period s) (periods d) = None
          \<or> (\<exists>p. periodMatch (periods d) s = Some p \<and> Some (period_id p) = period s)"
    using find_either_vs_priority [of "\<lambda>p. Some (period_id p) = period s"
        "\<lambda>p. Some (period_name p) = period s" "periods d"]
    by (simp add: periodMatch_def resolve_id_then_name_def)
  have l1: "locationMatch (locations d) s = resolve_id_then_name location_id location_name (locations d) (location s)
      \<longleftrightarrow> find (\<lambda>l. Some (location_id l) = location s) (locations d) = None
          \<or> (\<exists>l. locationMatch (locations d) s = Some l \<and> Some (location_id l) = location s)"
    using find_either_vs_priority [of "\<lambda>l. Some (location_id l) = location s"
        "\<lambda>l. Some (location_name l) = location s" "locations d"]
    by (simp add: locationMatch_def resolve_id_then_name_def)
  have a2: "artistMatch (artists d) s = Some a
      \<longleftrightarrow> (\<exists>before after. artists d = before @ a # after
            \<and> (artist_id a = artist s \<or> artist_name a = artist s)
            \<and> (\<forall>b\<in>set before. artist_id b \<noteq> artist s \<and> artist_name b \<noteq> artist s))"
    by (simp add: artistMatch_def find_Some_split)
  have m2: "materialMatch (materials d) s = Some m
      \<longleftrightarrow> (\<exists>before after. materials d = before @ m # after
            \<and> (Some (material_id m) = material s \<or> Some (material_name m) = material s)
            \<and> (\<forall>b\<in>set before. Some (material_id b) \<noteq> material s \<and> Some (material_name b) \<noteq> material s))"
    by (simp add: materialMatch_def find_Some_split)
  have p2: "periodMatch (periods d) s = Some p
      \<longleftrightarrow> (\<exists>before after. periods d = before @ p # after
            \<and> (Some (period_id p) = period s \<or> Some (period_name p) = period s)
            \<and> (\<forall>b\<in>set before. Some (period_id b) \<noteq> period s \<and> Some (period_name b) \<noteq> period s))"
    by (simp add: periodMatch_def find_Some_split)
  have l2: "locationMatch (locations d) s = Some l
      \<longleftrightarrow> (\<exists>before after. locations d = before @ l # after
            \<and> (Some (location_id l) = location s \<or> Some (location_name l) = location s)
            \<and> (\<forall>b\<in>set before. Some (location_id b) \<noteq> location s \<and> Some (location_name b) \<noteq> location s))"
    by (simp add: locationMatch_def find_Some_split)
  have related: "data svc = Some (document d) \<longrightarrow>
        (\<exists>pairs. getSculpturesByArtist fs svc q = (Inr pairs, svc)
           \<and> (\<forall>x e. (x, e) \<in> set pairs \<longleftrightarrow>
                 x \<in> set (sculptures d) \<and> e \<in> set (artists d)
                 \<and> includes_str (toLowerCase (artist_name e)) (toLowerCase q)
                 \<and> (artist x = artist_id e \<or> artist x = artist_name e)))
        \<and> (\<exists>pairs. getSculpturesByMaterial fs svc q = (Inr pairs, svc)
           \<and> (\<forall>x e. (x, e) \<in> set pairs \<longleftrightarrow>
                 x \<in> set (sculptures d) \<and> e \<in> set (materials d)
                 \<and> includes_str (toLowerCase (material_name e)) (toLowerCase q)
                 \<and> (material x = Some (material_id e) \<or> material x = Some (material_name e))))
        \<and> (\<exists>pairs. getSculpturesByPeriod fs svc q = (Inr pairs, svc)
           \<and> (\<forall>x e. (x, e) \<in> set pairs \<longleftrightarrow>
                 x \<in> set (sculptures d) \<and> e \<in> set (periods d)
                 \<and> includes_str (toLowerCase (period_name e)) (toLowerCase q)
                 \<and> (period x = Some (period_id e) \<or> period x = Some (period_name e))))"
  proof
    assume loaded: "data svc = Some (document d)"
    show "(\<exists>pairs. getSculpturesByArtist fs svc q = (Inr pairs, svc)
           \<and> (\<forall>x e. (x, e) \<in> set pairs \<longleftrightarrow>
                 x \<in> set (sculptures d) \<and> e \<in> set (artists d)
                 \<and> includes_str (toLowerCase (artist_name e)) (toLowerCase q)
                 \<and> (artist x = artist_id e \<or> artist x = artist_name e)))
        \<and> (\<exists>pairs. getSculpturesByMaterial fs svc q = (Inr pairs, svc)
           \<and> (\<forall>x e. (x, e) \<in> set pairs \<longleftrightarrow>
                 x \<in> set (sculptures d) \<and> e \<in> set (materials d)
                 \<and> includes_str (toLowerCase (material_name e)) (toLowerCase q)
                 \<and> (material x = Some (material_id e) \<or> material x = Some (material_name e))))
        \<and> (\<exists>pairs. getSculpturesByPeriod fs svc q = (Inr pairs, svc)
           \<and> (\<forall>x e. (x, e) \<in> set pairs \<longleftrightarrow>
                 x \<in> set (sculptures d) \<and> e \<in> set (periods d)
                 \<and> includes_str (toLowerCase (period_name e)) (toLowerCase q)
                 \<and> (period x = Some (period_id e) \<or> period x = Some (period_name e))))"
      unfolding lookups_document [OF loaded]
      by (intro conjI exI) (rule refl, simp only: by_related_pairs, blast)+
  qed
  from a1 m1 p1 l1 a2 m2 p2 l2 related show ?thesis
    by (intro conjI)
qed

text \<open>
  Claim C4 as stated fails: the name of the first artist is the id of the second one, the
  sculpture refers to that string, and the resolution picks the first artist (matched by
  name) where ``id first'' picks the second.
\<close>
theorem reference_resolution_counterexample:
  "artistMatch (artists ex_data_alias) ex_david = Some ex_alias
   \<and> resolve_id_then_name artist_id artist_name (artists ex_data_alias) (Some (artist ex_david))
       = Some ex_michelangelo
   \<and> artist_id ex_michelangelo = artist ex_david
   \<and> artist_id ex_alias \<noteq> artist ex_david
   \<and> artist_name ex_alias = artist ex_david"
  by (simp add: artistMatch_def resolve_id_then_name_def ex_data_alias_def ex_data_def ex_david_def
      ex_alias_def ex_michelangelo_def)


text \<open>
  An artist reference that is the id of the only artist resolves to that artist. On the
  store with the alias, the lookup by artist pairs the sculpture with the artist matched by
  name and with the artist matched by id.
\<close>
theorem reference_resolution_witness:
  "artistMatch (artists ex_data) ex_david
     = resolve_id_then_name artist_id artist_name (artists ex_data) (Some (artist ex_david))
   \<and> artistMatch (artists ex_data) ex_david = Some ex_michelangelo
   \<and> getSculpturesByArtist fs_missing svc_alias ''a''
       = (Inr [(ex_david, ex_alias), (ex_david, ex_michelangelo)], svc_alias)"
proof -
  have m: "artistMatch (artists ex_data) ex_david = Some ex_michelangelo"
    by (simp add: artistMatch_def ex_data_def ex_david_def ex_michelangelo_def)
  have i: "artist_id ex_michelangelo = artist ex_david"
    by (simp add: ex_david_def ex_michelangelo_def)
  have "artistMatch (artists ex_data) ex_david
          = resolve_id_then_name artist_id artist_name (artists ex_data) (Some (artist ex_david))
        \<longleftrightarrow> find (\<lambda>a. artist_id a = artist ex_david) (artists ex_data) = None
            \<or> (\<exists>a. artistMatch (artists ex_data) ex_david = Some a \<and> artist_id a = artist ex_david)"
    using reference_resolution [of ex_data ex_david] by (rule conjunct1)
  with m i have first: "artistMatch (artists ex_data) ex_david
     = resolve_id_then_name artist_id artist_name (artists ex_data) (Some (artist ex_david))"
    by simp
  have loaded: "data svc_alias = Some (document ex_data_alias)"
    by (simp add: svc_alias_def)
  note related = reference_resolution [where d = ex_data_alias and svc = svc_alias and fs = fs_missing
      and q = "''a''", THEN conjunct2, THEN conjunct2, THEN conjunct2, THEN conjunct2, THEN conjunct2,
      THEN conjunct2, THEN conjunct2, THEN conjunct2, THEN mp, OF loaded, THEN conjunct1]
  then obtain pairs
    where pairs: "getSculpturesByArtist fs_missing svc_alias ''a'' = (Inr pairs, svc_alias)"
    by (elim exE conjE)
  have "fst (getSculpturesByArtist fs_missing svc_alias ''a'')
          = Inr [(ex_david, ex_alias), (ex_david, ex_michelangelo)]"
    by code_simp
  with pairs have "getSculpturesByArtist fs_missing svc_alias ''a''
       = (Inr [(ex_david, ex_alias), (ex_david, ex_michelangelo)], svc_alias)"
    by simp
  with first m show ?thesis
    by simp
qed

subsection \<open>Search by criteria\<close>

lemma related_guard:
  "(case c of None \<Rightarrow> False | Some q \<Rightarrow> q \<noteq> [] \<and> noMatch r q) = (\<not> related_passes (nonempty c) r)"
  by (cases c; cases r) (simp_all add: related_passes_def nonempty_def)

lemma name_guard:
  "(case c of None \<Rightarrow> False | Some q \<Rightarrow> q \<noteq> [] \<and> \<not> includes_str (toLowerCase n) (toLowerCase q))
     = (\<not> name_passes (nonempty c) n)"
  by (cases c) (simp_all add: name_passes_def nonempty_def)

lemma checks_document:
  "artistCheck (document d) params s
     = Inr (\<not> related_passes (nonempty (param_artist params)) (map_option artist_name (artistMatch (artists d) s)))"
  "materialCheck (document d) params s
     = Inr (\<not> related_passes (nonempty (param_material params))
              (map_option material_name (materialMatch (materials d) s)))"
  "periodCheck (document d) params s
     = Inr (\<not> related_passes (nonempty (param_period params)) (map_option period_name (periodMatch (periods d) s)))"
  "locationCheck (document d) params s
     = Inr (\<not> related_passes (nonempty (param_location params))
              (map_option location_name (locationMatch (locations d) s)))"
  unfolding artistCheck_def materialCheck_def periodCheck_def locationCheck_def
    related_guard [symmetric]
  by (simp_all split: option.splits)

lemma searchFilter_spec:
  "searchFilter (document d) params s = Inr (every_criterion_passes d (supplied_nonempty params) s)"
  unfolding searchFilter_def every_criterion_passes_def name_guard checks_document
  by (simp add: supplied_nonempty_def)

text \<open>
  Claim C7, as amended. A criterion counts as supplied when it is present and not the empty
  string. On a loaded store, \<open>searchSculptures\<close> returns exactly the sculptures, in store
  order, for which every supplied criterion passes: the name criterion when the name of the
  sculpture contains the value, every other criterion when the reference field of the
  sculpture resolves to an entity whose name contains the value (both without regard to
  case); a sculpture whose reference resolves to no entity, a missing reference included,
  fails that criterion.
\<close>
theorem search_conjunctive:
  "data svc = Some (document d) \<Longrightarrow>
     searchSculptures fs svc params
       = (Inr (filter (every_criterion_passes d (supplied_nonempty params)) (sculptures d)), svc)"
  by (simp add: searchSculptures_def searchFilter_spec
      filterE_total [where p = "every_criterion_passes d (supplied_nonempty params)"])

text \<open>
  The criterion \<open>material: "MARBLE"\<close> keeps the sculpture made of marble and drops the one
  without a material.
\<close>
theorem search_conjunctive_witness:
  "searchSculptures fs_missing svc_loaded marble_criterion = (Inr [ex_david], svc_loaded)"
proof -
  have d: "data svc_loaded = Some (document ex_data)"
    by (simp add: svc_loaded_def)
  have "filter (every_criterion_passes ex_data (supplied_nonempty marble_criterion))
          (sculptures ex_data) = [ex_david]"
    by code_simp
  with search_conjunctive [OF d, of fs_missing marble_criterion]
  show ?thesis by simp
qed

text \<open>
  Claim C7 as stated fails for a criterion that is the empty string: with \<open>artist: ""\<close> the
  search returns a sculpture whose artist reference resolves to no entity, which the
  criterion as worded excludes.
\<close>
theorem search_empty_criterion_counterexample:
  "fst (searchSculptures fs_missing svc_loaded empty_artist_criterion) = Inr [ex_david, ex_orphan]
   \<and> filter (every_criterion_passes ex_data empty_artist_criterion) (sculptures ex_data) = [ex_david]
   \<and> artistMatch (artists ex_data) ex_orphan = None"
  by code_simp


section \<open>Properties of the session coordinator\<close>

subsection \<open>Streamed text\<close>

lemma sendDeltas_completed:
  "sendDeltas cid (completed cs) s
     = (Inr (), s\<lparr>ws_sent := ws_sent s @ map (\<lambda>t. TextFrame (TextDelta cid t)) cs\<rparr>)"
  by (induction cs arbitrary: s) (simp_all add: send_def)

text \<open>
  Claim C3. For a text content item whose stream delivers the chunks \<open>cs\<close> and then ends,
  \<open>handleTextContent\<close> hands to the WebSocket, after what was sent before, one \<open>text_delta\<close>
  frame per chunk, in the order of the chunks and all with the id of the item (item id,
  dash, content index), and then one \<open>text_done\<close> frame with the same id, which is last.
\<close>
theorem text_content_frames:
  "handleTextContent s \<lparr>itemId = item, contentIndex = k, textChunks = completed cs\<rparr>
     = (Inr (), s\<lparr>ws_sent := ws_sent s
          @ map (\<lambda>t. TextFrame (TextDelta (contentId item k) t)) cs
          @ [TextFrame (Control (TextDone (contentId item k)))]\<rparr>)"
  by (simp add: handleTextContent_def sendDeltas_completed send_def Let_def)

text \<open>Three chunks give three deltas and one \<open>text_done\<close>, all with the id \<open>item_1-0\<close>.\<close>
theorem text_content_frames_witness:
  "handleTextContent ex_session ex_text_content
     = (Inr (), ex_session\<lparr>ws_sent :=
          [TextFrame (TextDelta ''item_1-0'' ''Hel''), TextFrame (TextDelta ''item_1-0'' ''lo''),
           TextFrame (TextDelta ''item_1-0'' ''!''), TextFrame (Control (TextDone ''item_1-0''))]\<rparr>)"
proof -
  have "contentId ''item_1'' 0 = ''item_1-0''"
    by (simp add: contentId_def show_nat.simps digit_char_def)
  with text_content_frames [of ex_session "''item_1''" 0 "[''Hel'', ''lo'', ''!'']"]
  show ?thesis
    by (simp add: ex_text_content_def ex_session_def)
qed

subsection \<open>Streamed audio\<close>

text \<open>
  Every chunk gives one binary frame, in the order of arrival; the frame holds the whole
  buffer under the chunk, or zeros when that buffer is not an \<open>ArrayBuffer\<close>. It holds the
  bytes of the chunk when the chunk covers an \<open>ArrayBuffer\<close> entirely.
\<close>
lemma handleAudioChunks_completed:
  "handleAudioChunks (completed cs) s
     = (Inr (), s\<lparr>ws_sent := ws_sent s @ map (\<lambda>c. BinaryFrame (audioPayload c)) cs\<rparr>)"
  by (induction cs arbitrary: s) (simp_all add: sendBinary_def)

lemma audioPayload_whole_buffer:
  "isArrayBuffer (buffer c) \<Longrightarrow> byteOffset c = 0 \<Longrightarrow> byteLength c = length (contents (buffer c))
     \<Longrightarrow> audioPayload c = chunk_bytes c"
  by (simp add: audioPayload_def chunk_bytes_def)

text \<open>
  Claim C9 fails on the code. A chunk that is a window of two bytes in a buffer of four is
  sent as the four bytes of the buffer, and a chunk over a \<open>SharedArrayBuffer\<close> is sent as
  zeros: in both cases the bytes of the frame are not the bytes of the chunk. (One frame per
  chunk, in the order of arrival, does hold.)
\<close>
theorem audio_chunk_frames_differ:
  "well_formed_chunk ex_window \<and> chunk_bytes ex_window = [2, 3]
   \<and> well_formed_chunk ex_shared \<and> chunk_bytes ex_shared = [7, 9]
   \<and> ws_sent (snd (handleAudioChunks (completed [ex_window, ex_shared]) ex_session))
       = [BinaryFrame [1, 2, 3, 4], BinaryFrame [0, 0]]"
  by (simp add: well_formed_chunk_def chunk_bytes_def ex_window_def ex_shared_def ex_session_def
      sendBinary_def audioPayload_def)

subsection \<open>Enrichment\<close>

lemma foldl_nonempty:
  "h \<noteq> [] \<Longrightarrow> (\<And>info x. info \<noteq> [] \<Longrightarrow> step info x \<noteq> []) \<Longrightarrow> foldl step h xs \<noteq> []"
  by (induction xs arbitrary: h) simp_all

lemma formats_nonempty:
  "formatSculptureInfo r1 \<noteq> []" "formatArtistSculptureInfo r2 \<noteq> []"
  "formatMaterialSculptureInfo r3 \<noteq> []" "formatPeriodSculptureInfo r4 \<noteq> []"
  unfolding formatSculptureInfo_def formatArtistSculptureInfo_def formatMaterialSculptureInfo_def
    formatPeriodSculptureInfo_def
  by (rule foldl_nonempty; simp add: nl_def split_def)+

lemma first_yield_simps:
  "first_yield lookup [] = Inr None"
  "first_yield lookup (t # ts) =
     (case lookup t of
        Inl e \<Rightarrow> Inl e
      | Inr r \<Rightarrow> if r \<noteq> [] then Inr (Some r) else first_yield lookup ts)"
  by (simp_all add: first_yield_def split: sum.splits)

lemma first_yield_error: "first_yield lookup ts = Inl e \<Longrightarrow> \<exists>t\<in>set ts. lookup t = Inl e"
  by (induction ts) (auto simp: first_yield_simps split: sum.splits if_splits)

lemma first_yield_total: "(\<And>t. \<exists>r. lookup t = Inr r) \<Longrightarrow> \<exists>y. first_yield lookup ts = Inr y"
proof (induction ts)
  case Nil
  then show ?case by (simp add: first_yield_simps)
next
  case (Cons t ts)
  from Cons.prems obtain r where "lookup t = Inr r"
    by blast
  with Cons show ?case
    by (simp add: first_yield_simps)
qed

lemma first_yield_Some:
  "first_yield lookup ts = Inr (Some r) \<longleftrightarrow>
     (\<exists>before t after. ts = before @ t # after \<and> lookup t = Inr r \<and> r \<noteq> []
        \<and> (\<forall>u\<in>set before. lookup u = Inr []))"
proof -
  have aux: "(lookup t \<noteq> Inr [] \<and> lookup t = Inr r) = (lookup t = Inr r \<and> r \<noteq> [])" for t
    by auto
  have "first_yield lookup ts = Inr (Some r)
      \<longleftrightarrow> (\<exists>t. find (\<lambda>t. lookup t \<noteq> Inr []) ts = Some t \<and> lookup t = Inr r)"
    by (auto simp: first_yield_def split: option.splits sum.splits)
  also have "\<dots> \<longleftrightarrow> (\<exists>before t after. ts = before @ t # after
        \<and> (lookup t \<noteq> Inr [] \<and> lookup t = Inr r) \<and> (\<forall>u\<in>set before. lookup u = Inr []))"
    unfolding find_Some_split by blast
  also have "\<dots> \<longleftrightarrow> (\<exists>before t after. ts = before @ t # after \<and> lookup t = Inr r \<and> r \<noteq> []
        \<and> (\<forall>u\<in>set before. lookup u = Inr []))"
    by (simp only: aux conj_assoc)
  finally show ?thesis .
qed

text \<open>
  A lookup leaves the service as the lazy load leaves it, and gives on that service what it
  gives on the one before; the only error it raises is a \<open>TypeError\<close>.
\<close>

lemma ensureLoaded_idem: "ensureLoaded fs (ensureLoaded fs svc) = ensureLoaded fs svc"
  by (cases "data svc") (auto simp: ensureLoaded_def loadData_cases split: sum.splits)

lemma lookups_service:
  "snd (findSculptureByName fs svc t) = ensureLoaded fs svc"
  "snd (getSculpturesByArtist fs svc t) = ensureLoaded fs svc"
  "snd (getSculpturesByMaterial fs svc t) = ensureLoaded fs svc"
  "snd (getSculpturesByPeriod fs svc t) = ensureLoaded fs svc"
  by (simp_all add: findSculptureByName_def getSculpturesByArtist_def getSculpturesByMaterial_def
      getSculpturesByPeriod_def Let_def split: option.splits)

lemma lookups_again:
  "fst (findSculptureByName fs (ensureLoaded fs svc) t) = fst (findSculptureByName fs svc t)"
  "fst (getSculpturesByArtist fs (ensureLoaded fs svc) t) = fst (getSculpturesByArtist fs svc t)"
  "fst (getSculpturesByMaterial fs (ensureLoaded fs svc) t) = fst (getSculpturesByMaterial fs svc t)"
  "fst (getSculpturesByPeriod fs (ensureLoaded fs svc) t) = fst (getSculpturesByPeriod fs svc t)"
  by (simp_all add: findSculptureByName_def getSculpturesByArtist_def getSculpturesByMaterial_def
      getSculpturesByPeriod_def Let_def ensureLoaded_idem)

lemma lookups_raise:
  "fst (findSculptureByName fs svc t) = Inl e \<Longrightarrow> e = TypeError"
  "fst (getSculpturesByArtist fs svc t) = Inl e \<Longrightarrow> e = TypeError"
  "fst (getSculpturesByMaterial fs svc t) = Inl e \<Longrightarrow> e = TypeError"
  "fst (getSculpturesByPeriod fs svc t) = Inl e \<Longrightarrow> e = TypeError"
  by (simp_all add: findSculptureByName_def getSculpturesByArtist_def getSculpturesByMaterial_def
      getSculpturesByPeriod_def Let_def split: option.splits if_splits)

lemma tryTerms_loading:
  assumes after: "\<And>sv t. snd (lookup sv t) = E sv"
    and again: "\<And>sv t. fst (lookup (E sv) t) = fst (lookup sv t)"
    and idem: "\<And>sv. E (E sv) = E sv"
  shows "tryTerms lookup format ts (h, c, svc)
           = (case first_yield (\<lambda>t. fst (lookup svc t)) ts of
                Inl e \<Rightarrow> (Inl e, E svc)
              | Inr None \<Rightarrow> (Inr (h, c), if ts = [] then svc else E svc)
              | Inr (Some r) \<Rightarrow> (Inr (True, c @ format r), E svc))"
proof (induction ts arbitrary: svc)
  case Nil
  then show ?case by (simp add: first_yield_simps)
next
  case (Cons t ts)
  obtain res where r: "lookup svc t = (res, E svc)"
    using after [of svc t] by (cases "lookup svc t") simp
  show ?case
  proof (cases res)
    case (Inl e)
    with r show ?thesis
      by (simp add: first_yield_simps)
  next
    case (Inr results)
    show ?thesis
    proof (cases "results = []")
      case True
      have "tryTerms lookup format ts (h, c, E svc)
              = (case first_yield (\<lambda>t. fst (lookup svc t)) ts of
                   Inl e \<Rightarrow> (Inl e, E svc)
                 | Inr None \<Rightarrow> (Inr (h, c), E svc)
                 | Inr (Some r) \<Rightarrow> (Inr (True, c @ format r), E svc))"
        using Cons.IH [of "E svc"]
        by (simp add: again idem cong: sum.case_cong option.case_cong)
      with True Inr r show ?thesis
        by (simp add: first_yield_simps)
    next
      case False
      with Inr r show ?thesis
        by (simp add: first_yield_simps)
    qed
  qed
qed

lemma stage_loading:
  assumes after: "\<And>sv t. snd (lookup sv t) = E sv"
    and again: "\<And>sv t. fst (lookup (E sv) t) = fst (lookup sv t)"
    and idem: "\<And>sv. E (E sv) = E sv"
    and sv: "sv = svc \<or> sv = E svc"
  shows "\<exists>sv'. (sv' = svc \<or> sv' = E svc)
           \<and> (if ts \<noteq> [] then tryTerms lookup format ts (False, [], sv) else (Inr (False, []), sv))
               = (case first_yield (\<lambda>t. fst (lookup svc t)) ts of
                    Inl e \<Rightarrow> (Inl e, sv')
                  | Inr None \<Rightarrow> (Inr (False, []), sv')
                  | Inr (Some r) \<Rightarrow> (Inr (True, format r), sv'))"
proof (cases "ts = []")
  case True
  with sv show ?thesis
    by (simp add: first_yield_simps)
next
  case False
  from sv have same: "E sv = E svc" "(\<lambda>t. fst (lookup sv t)) = (\<lambda>t. fst (lookup svc t))"
    by (auto simp: idem again)
  from False have "(if ts \<noteq> [] then tryTerms lookup format ts (False, [], sv) else (Inr (False, []), sv))
      = (case first_yield (\<lambda>t. fst (lookup svc t)) ts of
           Inl e \<Rightarrow> (Inl e, E svc)
         | Inr None \<Rightarrow> (Inr (False, []), E svc)
         | Inr (Some r) \<Rightarrow> (Inr (True, format r), E svc))"
    by (simp add: tryTerms_loading [of lookup E, OF after again idem] same
        cong: sum.case_cong option.case_cong)
  then show ?thesis
    by blast
qed


lemma client_calls_context:
  "client_calls (snd (client_call w (s\<lparr>dataService := x\<rparr>) c)) = client_calls s @ [c]"
  by (simp add: client_call_def Let_def)

text \<open>
  The \<open>try\<close> block of enrichment on any store: it raises the error of the selection, or
  submits the selected context, or does nothing; the data service is left as it was or as
  the lazy load of the first lookup leaves it.
\<close>

lemma enrich_try_outcome:
  "\<exists>sv'. (sv' = svc \<or> sv' = ensureLoaded (disk w) svc)
     \<and> enrich_try w s svc text
         = (case selection (disk w) svc text of
              Inl e \<Rightarrow> (Inl e, s\<lparr>dataService := Some sv'\<rparr>)
            | Inr None \<Rightarrow> (Inr (), s\<lparr>dataService := Some sv'\<rparr>)
            | Inr (Some c) \<Rightarrow> client_call w (s\<lparr>dataService := Some sv'\<rparr>) (SendItem System (contextIntro @ c)))"
proof -
  let ?E = "ensureLoaded (disk w)"
  note idem = ensureLoaded_idem [of "disk w"]
  note st = stage_loading [of _ ?E, OF _ _ idem]
  have start: "svc = svc \<or> svc = ?E svc"
    by simp
  obtain sv1 where sv1: "sv1 = svc \<or> sv1 = ?E svc"
    and st1: "(if extractSculptureTerms text \<noteq> []
               then tryTerms (findSculptureByName (disk w)) formatSculptureInfo
                      (extractSculptureTerms text) (False, [], svc)
               else (Inr (False, []), svc))
              = (case (first_yield (\<lambda>t. fst (findSculptureByName (disk w) svc t)) (extractSculptureTerms text)) of
                   Inl e \<Rightarrow> (Inl e, sv1)
                 | Inr None \<Rightarrow> (Inr (False, []), sv1)
                 | Inr (Some r) \<Rightarrow> (Inr (True, formatSculptureInfo r), sv1))"
    using st [of "findSculptureByName (disk w)", OF lookups_service(1) lookups_again(1) start]
    by blast
  obtain sv2 where sv2: "sv2 = svc \<or> sv2 = ?E svc"
    and st2: "(if extractArtistTerms text \<noteq> []
               then tryTerms (getSculpturesByArtist (disk w)) formatArtistSculptureInfo
                      (extractArtistTerms text) (False, [], sv1)
               else (Inr (False, []), sv1))
              = (case (first_yield (\<lambda>t. fst (getSculpturesByArtist (disk w) svc t)) (extractArtistTerms text)) of
                   Inl e \<Rightarrow> (Inl e, sv2)
                 | Inr None \<Rightarrow> (Inr (False, []), sv2)
                 | Inr (Some r) \<Rightarrow> (Inr (True, formatArtistSculptureInfo r), sv2))"
    using st [of "getSculpturesByArtist (disk w)", OF lookups_service(2) lookups_again(2) sv1]
    by blast
  obtain sv3 where sv3: "sv3 = svc \<or> sv3 = ?E svc"
    and st3: "(if extractMaterialTerms text \<noteq> []
               then tryTerms (getSculpturesByMaterial (disk w)) formatMaterialSculptureInfo
                      (extractMaterialTerms text) (False, [], sv2)
               else (Inr (False, []), sv2))
              = (case (first_yield (\<lambda>t. fst (getSculpturesByMaterial (disk w) svc t)) (extractMaterialTerms text)) of
                   Inl e \<Rightarrow> (Inl e, sv3)
                 | Inr None \<Rightarrow> (Inr (False, []), sv3)
                 | Inr (Some r) \<Rightarrow> (Inr (True, formatMaterialSculptureInfo r), sv3))"
    using st [of "getSculpturesByMaterial (disk w)", OF lookups_service(3) lookups_again(3) sv2]
    by blast
  obtain sv4 where sv4: "sv4 = svc \<or> sv4 = ?E svc"
    and st4: "(if extractPeriodTerms text \<noteq> []
               then tryTerms (getSculpturesByPeriod (disk w)) formatPeriodSculptureInfo
                      (extractPeriodTerms text) (False, [], sv3)
               else (Inr (False, []), sv3))
              = (case (first_yield (\<lambda>t. fst (getSculpturesByPeriod (disk w) svc t)) (extractPeriodTerms text)) of
                   Inl e \<Rightarrow> (Inl e, sv4)
                 | Inr None \<Rightarrow> (Inr (False, []), sv4)
                 | Inr (Some r) \<Rightarrow> (Inr (True, formatPeriodSculptureInfo r), sv4))"
    using st [of "getSculpturesByPeriod (disk w)", OF lookups_service(4) lookups_again(4) sv3]
    by blast
  show ?thesis
  proof (cases "(first_yield (\<lambda>t. fst (findSculptureByName (disk w) svc t)) (extractSculptureTerms text))")
    case raised: (Inl e)
    have "enrich_try w s svc text = (Inl e, s\<lparr>dataService := Some sv1\<rparr>)"
      unfolding enrich_try_def Let_def by (simp add: st1  raised)
    moreover have "selection (disk w) svc text = Inl e"
      by (simp add: selection_def  raised)
    ultimately show ?thesis
      using sv1 by (intro exI [of _ sv1]) simp
  next
    case (Inr found)
    show ?thesis
    proof (cases found)
      case (Some r)
      with Inr have yields: "(first_yield (\<lambda>t. fst (findSculptureByName (disk w) svc t)) (extractSculptureTerms text)) = Inr (Some r)"
        by simp
      have "enrich_try w s svc text
              = client_call w (s\<lparr>dataService := Some sv1\<rparr>) (SendItem System (contextIntro @ formatSculptureInfo r))"
        unfolding enrich_try_def Let_def by (simp add: st1  yields formats_nonempty)
      moreover have "selection (disk w) svc text = Inr (Some (formatSculptureInfo r))"
        by (simp add: selection_def  yields)
      ultimately show ?thesis
        using sv1 by (intro exI [of _ sv1]) simp
    next
      case None
      with Inr have n1: "(first_yield (\<lambda>t. fst (findSculptureByName (disk w) svc t)) (extractSculptureTerms text)) = Inr None"
        by simp
      show ?thesis
      proof (cases "(first_yield (\<lambda>t. fst (getSculpturesByArtist (disk w) svc t)) (extractArtistTerms text))")
        case raised: (Inl e)
        have "enrich_try w s svc text = (Inl e, s\<lparr>dataService := Some sv2\<rparr>)"
          unfolding enrich_try_def Let_def by (simp add: st1 st2 n1 raised)
        moreover have "selection (disk w) svc text = Inl e"
          by (simp add: selection_def n1 raised)
        ultimately show ?thesis
          using sv2 by (intro exI [of _ sv2]) simp
      next
        case (Inr found)
        show ?thesis
        proof (cases found)
          case (Some r)
          with Inr have yields: "(first_yield (\<lambda>t. fst (getSculpturesByArtist (disk w) svc t)) (extractArtistTerms text)) = Inr (Some r)"
            by simp
          have "enrich_try w s svc text
                  = client_call w (s\<lparr>dataService := Some sv2\<rparr>) (SendItem System (contextIntro @ formatArtistSculptureInfo r))"
            unfolding enrich_try_def Let_def by (simp add: st1 st2 n1 yields formats_nonempty)
          moreover have "selection (disk w) svc text = Inr (Some (formatArtistSculptureInfo r))"
            by (simp add: selection_def n1 yields)
          ultimately show ?thesis
            using sv2 by (intro exI [of _ sv2]) simp
        next
          case None
          with Inr have n2: "(first_yield (\<lambda>t. fst (getSculpturesByArtist (disk w) svc t)) (extractArtistTerms text)) = Inr None"
            by simp
          show ?thesis
          proof (cases "(first_yield (\<lambda>t. fst (getSculpturesByMaterial (disk w) svc t)) (extractMaterialTerms text))")
            case raised: (Inl e)
            have "enrich_try w s svc text = (Inl e, s\<lparr>dataService := Some sv3\<rparr>)"
              unfolding enrich_try_def Let_def by (simp add: st1 st2 st3 n1 n2 raised)
            moreover have "selection (disk w) svc text = Inl e"
              by (simp add: selection_def n1 n2 raised)
            ultimately show ?thesis
              using sv3 by (intro exI [of _ sv3]) simp
          next
            case (Inr found)
            show ?thesis
            proof (cases found)
              case (Some r)
              with Inr have yields: "(first_yield (\<lambda>t. fst (getSculpturesByMaterial (disk w) svc t)) (extractMaterialTerms text)) = Inr (Some r)"
                by simp
              have "enrich_try w s svc text
                      = client_call w (s\<lparr>dataService := Some sv3\<rparr>) (SendItem System (contextIntro @ formatMaterialSculptureInfo r))"
                unfolding enrich_try_def Let_def by (simp add: st1 st2 st3 n1 n2 yields formats_nonempty)
              moreover have "selection (disk w) svc text = Inr (Some (formatMaterialSculptureInfo r))"
                by (simp add: selection_def n1 n2 yields)
              ultimately show ?thesis
                using sv3 by (intro exI [of _ sv3]) simp
            next
              case None
              with Inr have n3: "(first_yield (\<lambda>t. fst (getSculpturesByMaterial (disk w) svc t)) (extractMaterialTerms text)) = Inr None"
                by simp
              show ?thesis
              proof (cases "(first_yield (\<lambda>t. fst (getSculpturesByPeriod (disk w) svc t)) (extractPeriodTerms text))")
                case raised: (Inl e)
                have "enrich_try w s svc text = (Inl e, s\<lparr>dataService := Some sv4\<rparr>)"
                  unfolding enrich_try_def Let_def by (simp add: st1 st2 st3 st4 n1 n2 n3 raised)
                moreover have "selection (disk w) svc text = Inl e"
                  by (simp add: selection_def n1 n2 n3 raised)
                ultimately show ?thesis
                  using sv4 by (intro exI [of _ sv4]) simp
              next
                case (Inr found)
                show ?thesis
                proof (cases found)
                  case (Some r)
                  with Inr have yields: "(first_yield (\<lambda>t. fst (getSculpturesByPeriod (disk w) svc t)) (extractPeriodTerms text)) = Inr (Some r)"
                    by simp
                  have "enrich_try w s svc text
                          = client_call w (s\<lparr>dataService := Some sv4\<rparr>) (SendItem System (contextIntro @ formatPeriodSculptureInfo r))"
                    unfolding enrich_try_def Let_def by (simp add: st1 st2 st3 st4 n1 n2 n3 yields formats_nonempty)
                  moreover have "selection (disk w) svc text = Inr (Some (formatPeriodSculptureInfo r))"
                    by (simp add: selection_def n1 n2 n3 yields)
                  ultimately show ?thesis
                    using sv4 by (intro exI [of _ sv4]) simp
                next
                  case None
                  with Inr have n4: "(first_yield (\<lambda>t. fst (getSculpturesByPeriod (disk w) svc t)) (extractPeriodTerms text)) = Inr None"
                    by simp
                  have "enrich_try w s svc text = (Inr (), s\<lparr>dataService := Some sv4\<rparr>)"
                    unfolding enrich_try_def Let_def by (simp add: st1 st2 st3 st4 n1 n2 n3 n4)
                  moreover have "selection (disk w) svc text = Inr None"
                    by (simp add: selection_def n1 n2 n3 n4)
                  ultimately show ?thesis
                    using sv4 by (intro exI [of _ sv4]) simp
                qed
              qed
            qed
          qed
        qed
      qed
    qed
  qed
qed


lemma selection_raise: "selection fs svc text = Inl e \<Longrightarrow> e = TypeError"
  unfolding selection_def
  by (auto split: sum.splits option.splits dest!: first_yield_error dest: lookups_raise)

lemma selection_document:
  assumes "data svc = Some (document d)"
  shows "selection fs svc text = Inr (selected_context fs svc text)"
proof -
  have total: "\<exists>y. first_yield (\<lambda>t. fst (findSculptureByName fs svc t)) ts = Inr y"
    "\<exists>y. first_yield (\<lambda>t. fst (getSculpturesByArtist fs svc t)) ts = Inr y"
    "\<exists>y. first_yield (\<lambda>t. fst (getSculpturesByMaterial fs svc t)) ts = Inr y"
    "\<exists>y. first_yield (\<lambda>t. fst (getSculpturesByPeriod fs svc t)) ts = Inr y" for ts
    by (rule first_yield_total, simp add: lookups_document [OF assms])+
  obtain y1 where y1: "first_yield (\<lambda>t. fst (findSculptureByName fs svc t)) (extractSculptureTerms text) = Inr y1"
    using total(1) by blast
  obtain y2 where y2: "first_yield (\<lambda>t. fst (getSculpturesByArtist fs svc t)) (extractArtistTerms text) = Inr y2"
    using total(2) by blast
  obtain y3 where y3: "first_yield (\<lambda>t. fst (getSculpturesByMaterial fs svc t)) (extractMaterialTerms text) = Inr y3"
    using total(3) by blast
  obtain y4 where y4: "first_yield (\<lambda>t. fst (getSculpturesByPeriod fs svc t)) (extractPeriodTerms text) = Inr y4"
    using total(4) by blast
  have "\<exists>c. selection fs svc text = Inr c"
    unfolding selection_def y1 y2 y3 y4
    by (simp split: option.splits)
  then show ?thesis
    by (auto simp: selected_context_def)
qed

lemma enrich_try_calls:
  "client_calls (snd (enrich_try w s svc text)) = client_calls s @ context_items (disk w) svc text"
proof -
  obtain sv' where "enrich_try w s svc text
         = (case selection (disk w) svc text of
              Inl e \<Rightarrow> (Inl e, s\<lparr>dataService := Some sv'\<rparr>)
            | Inr None \<Rightarrow> (Inr (), s\<lparr>dataService := Some sv'\<rparr>)
            | Inr (Some c) \<Rightarrow> client_call w (s\<lparr>dataService := Some sv'\<rparr>) (SendItem System (contextIntro @ c)))"
    using enrich_try_outcome [of svc w s "text"] by blast
  then show ?thesis
    by (simp add: context_items_def selected_context_def client_calls_context
        split: sum.splits option.splits)
qed

lemma enrich_try_ws: "ws_sent (snd (enrich_try w s svc text)) = ws_sent s"
proof -
  obtain sv' where "enrich_try w s svc text
         = (case selection (disk w) svc text of
              Inl e \<Rightarrow> (Inl e, s\<lparr>dataService := Some sv'\<rparr>)
            | Inr None \<Rightarrow> (Inr (), s\<lparr>dataService := Some sv'\<rparr>)
            | Inr (Some c) \<Rightarrow> client_call w (s\<lparr>dataService := Some sv'\<rparr>) (SendItem System (contextIntro @ c)))"
    using enrich_try_outcome [of svc w s "text"] by blast
  then show ?thesis
    by (simp add: client_call_def Let_def split: sum.splits option.splits)
qed

lemma enrich_try_raised:
  assumes "fst (enrich_try w s svc text) = Inl e"
  shows "(e = TypeError \<and> client_calls (snd (enrich_try w s svc text)) = client_calls s)
       \<or> (e = RemoteError
          \<and> (\<exists>c. client_calls (snd (enrich_try w s svc text)) = client_calls s @ [SendItem System (contextIntro @ c)]
                \<and> rejects w (client_calls s) (SendItem System (contextIntro @ c))))"
proof -
  obtain sv' where out: "enrich_try w s svc text
         = (case selection (disk w) svc text of
              Inl e \<Rightarrow> (Inl e, s\<lparr>dataService := Some sv'\<rparr>)
            | Inr None \<Rightarrow> (Inr (), s\<lparr>dataService := Some sv'\<rparr>)
            | Inr (Some c) \<Rightarrow> client_call w (s\<lparr>dataService := Some sv'\<rparr>) (SendItem System (contextIntro @ c)))"
    using enrich_try_outcome [of svc w s "text"] by blast
  show ?thesis
  proof (cases "selection (disk w) svc text")
    case (Inl e')
    with out assms have "e = e'" "client_calls (snd (enrich_try w s svc text)) = client_calls s"
      by simp_all
    with Inl selection_raise [of "disk w" svc "text" e'] show ?thesis
      by simp
  next
    case (Inr found)
    show ?thesis
    proof (cases found)
      case None
      with Inr out assms show ?thesis
        by simp
    next
      case (Some c)
      with Inr out assms have "e = RemoteError"
        "client_calls (snd (enrich_try w s svc text)) = client_calls s @ [SendItem System (contextIntro @ c)]"
        "rejects w (client_calls s) (SendItem System (contextIntro @ c))"
        by (simp_all add: client_call_def Let_def split: if_splits)
      then show ?thesis
        by blast
    qed
  qed
qed

lemma enrichWithSculptureData_try:
  "dataService s = Some svc \<Longrightarrow> enrichWithSculptureData w s text = snd (enrich_try w s svc text)"
  by (simp add: enrichWithSculptureData_def split: prod.splits sum.splits)

lemma session_same_service: "dataService s = Some svc \<Longrightarrow> s\<lparr>dataService := Some svc\<rparr> = s"
  by simp

lemma enrichWithSculptureData_loaded:
  assumes ds: "dataService s = Some svc" and d: "data svc = Some (document d)"
  shows "enrichWithSculptureData w s text
           = s\<lparr>client_calls := client_calls s @ context_items (disk w) svc text\<rparr>"
proof -
  obtain sv' where sv': "sv' = svc \<or> sv' = ensureLoaded (disk w) svc"
    and out: "enrich_try w s svc text
         = (case selection (disk w) svc text of
              Inl e \<Rightarrow> (Inl e, s\<lparr>dataService := Some sv'\<rparr>)
            | Inr None \<Rightarrow> (Inr (), s\<lparr>dataService := Some sv'\<rparr>)
            | Inr (Some c) \<Rightarrow> client_call w (s\<lparr>dataService := Some sv'\<rparr>) (SendItem System (contextIntro @ c)))"
    using enrich_try_outcome [of svc w s "text"] by blast
  from sv' d have "sv' = svc"
    by auto
  with out show ?thesis
    by (simp add: enrichWithSculptureData_try [OF ds] selection_document [OF d] context_items_def
        session_same_service [OF ds] client_call_def Let_def split: option.splits)
qed

text \<open>
  Claim C1. On a loaded store, enrichment submits exactly the items of the selected context
  and changes nothing else: the context of the first category, in the order sculpture name,
  artist, material, period, that yields a result, and within the category the result of the
  first candidate term, in extraction order, whose lookup is not empty (every term before it
  has an empty lookup). So the context comes from one category and one term, and there is
  no context item when no category yields. On such a store no lookup raises.
\<close>
theorem enrichment_priority:
  assumes "dataService s = Some svc" and "data svc = Some (document d)"
  shows "enrichWithSculptureData w s text
           = s\<lparr>client_calls := client_calls s @ context_items (disk w) svc text\<rparr>
         \<and> selection (disk w) svc text = Inr (selected_context (disk w) svc text)
         \<and> (\<forall>lookup ts r. first_yield lookup ts = Inr (Some (r :: 'r list)) \<longleftrightarrow>
              (\<exists>before t after. ts = before @ t # after \<and> lookup t = Inr r \<and> r \<noteq> []
                 \<and> (\<forall>u\<in>set before. lookup u = Inr [])))"
  using enrichWithSculptureData_loaded [OF assms] selection_document [OF assms(2)] first_yield_Some
  by blast

lemma ex_selected_sculpture:
  "selected_context fs_present svc_loaded ''marble David'' = Some (formatSculptureInfo [ex_david])"
  by code_simp

lemma ex_selected_none: "selected_context fs_present svc_loaded ''lunch'' = None"
  by code_simp

lemma ex_session_loaded:
  "dataService ex_session = Some svc_loaded" "data svc_loaded = Some (document ex_data)"
  by (simp_all add: ex_session_def svc_loaded_def)

text \<open>
  A text that mentions a sculpture and a material: the context is the one of the sculpture.
\<close>
theorem enrichment_priority_witness:
  "enrichWithSculptureData ex_world ex_session ''marble David''
     = ex_session\<lparr>client_calls := [SendItem System (contextIntro @ formatSculptureInfo [ex_david])]\<rparr>
   \<and> extractSculptureTerms ''marble David'' = [''David'']
   \<and> extractMaterialTerms ''marble David'' = [''marble'']"
proof -
  have terms: "extractSculptureTerms ''marble David'' = [''David'']"
    "extractMaterialTerms ''marble David'' = [''marble'']"
    by code_simp+
  have "disk ex_world = fs_present" "client_calls ex_session = []"
    by (simp_all add: ex_world_def ex_session_def)
  with enrichment_priority [OF ex_session_loaded, of ex_world "''marble David''", THEN conjunct1] terms
  show ?thesis
    by (simp add: context_items_def ex_selected_sculpture)
qed

subsection \<open>User messages\<close>

lemma extract_empty:
  "extractSculptureTerms [] = []" "extractArtistTerms [] = []"
  "extractMaterialTerms [] = []" "extractPeriodTerms [] = []"
  by (simp_all add: extractSculptureTerms_def extractArtistTerms_def extractMaterialTerms_def
      extractPeriodTerms_def extractTermsFromText_def toLowerCase_def commonSculptures_def
      commonArtists_def commonMaterials_def commonPeriods_def)

lemma context_items_empty: "context_items fs svc [] = []"
  by (simp add: context_items_def selected_context_def selection_def extract_empty first_yield_simps)

lemma handleTextMessage_calls:
  assumes parse: "parseMessage w m = Inr (UserMessage i text)"
  shows "client_calls (snd (handleTextMessage w s m))
           = (let items = (case enrichment_context w s text of
                             None \<Rightarrow> []
                           | Some c \<Rightarrow> [SendItem System (contextIntro @ c)])
              in client_calls s @ items @ SendItem User text
                 # (if rejects w (client_calls s @ items) (SendItem User text)
                    then [] else [GenerateResponse]))"
proof (cases "dataService s")
  case None
  with parse show ?thesis
    by (simp add: handleTextMessage_def client_call_def Let_def enrichment_context_def)
next
  case (Some svc)
  have items: "(case enrichment_context w s text of
                  None \<Rightarrow> []
                | Some c \<Rightarrow> [SendItem System (contextIntro @ c)]) = context_items (disk w) svc text"
    using Some by (simp add: enrichment_context_def context_items_def)
  show ?thesis
  proof (cases "text = []")
    case True
    with parse Some show ?thesis
      unfolding items Let_def
      by (simp add: handleTextMessage_def client_call_def Let_def context_items_empty)
  next
    case False
    with parse Some show ?thesis
      unfolding items Let_def
      by (simp add: handleTextMessage_def enrichWithSculptureData_try [OF Some] enrich_try_calls
          client_call_def Let_def)
  qed
qed

text \<open>
  Claim C2. For a \<open>user_message\<close>, on any session: when enrichment selects a context, the
  calls issued on the remote session are one system-role item with that context, then the
  item of the user, then the generation request; when no category yields, they are the
  item of the user, then the generation request, and no system-role item. (The generation
  request is issued unless the remote session rejects the item of the user, in which case
  the handler throws before it.)
\<close>
theorem user_message_order:
  assumes "parseMessage w m = Inr (UserMessage i text)"
  shows "(\<forall>c. enrichment_context w s text = Some c \<longrightarrow>
            client_calls (snd (handleTextMessage w s m))
              = client_calls s @ SendItem System (contextIntro @ c) # SendItem User text
                # (if rejects w (client_calls s @ [SendItem System (contextIntro @ c)]) (SendItem User text)
                   then [] else [GenerateResponse]))
       \<and> (enrichment_context w s text = None \<longrightarrow>
            client_calls (snd (handleTextMessage w s m))
              = client_calls s @ SendItem User text
                # (if rejects w (client_calls s) (SendItem User text) then [] else [GenerateResponse]))"
  by (simp add: handleTextMessage_calls [OF assms])

text \<open>A message about David gets a context item first; a message about lunch gets none.\<close>
theorem user_message_order_witness:
  "client_calls (snd (handleTextMessage ex_world ex_session ''text:marble David''))
     = [SendItem System (contextIntro @ formatSculptureInfo [ex_david]),
        SendItem User ''marble David'', GenerateResponse]
   \<and> client_calls (snd (handleTextMessage ex_world ex_session ''text:lunch''))
     = [SendItem User ''lunch'', GenerateResponse]"
proof -
  have p1: "parseMessage ex_world ''text:marble David'' = Inr (UserMessage ''u1'' ''marble David'')"
    and p2: "parseMessage ex_world ''text:lunch'' = Inr (UserMessage ''u1'' ''lunch'')"
    by (simp_all add: ex_world_def)
  have w: "client_calls ex_session = []" "rejects ex_world = (\<lambda>issued c. False)"
    by (simp_all add: ex_world_def ex_session_def)
  have c1: "enrichment_context ex_world ex_session ''marble David'' = Some (formatSculptureInfo [ex_david])"
    and c2: "enrichment_context ex_world ex_session ''lunch'' = None"
    by (simp_all add: enrichment_context_def ex_session_def ex_world_def ex_selected_sculpture
        ex_selected_none)
  from user_message_order [OF p1, of ex_session] user_message_order [OF p2, of ex_session]
  show ?thesis
    by (simp add: w c1 c2)
qed

text \<open>
  Claim C8, as amended. When the \<open>try\<close> block of enrichment throws, either a
  \<open>TypeError\<close> of a lookup (on a store whose document lacks a collection), before any
  context item is submitted, or the rejection of the context item by the remote session,
  the error stays inside \<open>enrichWithSculptureData\<close>: the next call on the remote session is
  the item of the user; the generation request follows when the remote session accepts
  that item, and when it rejects it the handler throws again and generation is not
  requested; no frame is sent to the client; and the handler fails only if one of these
  two calls is rejected.
\<close>
theorem enrichment_error_swallowed:
  assumes "parseMessage w m = Inr (UserMessage i text)"
    and "dataService s = Some svc" and "text \<noteq> []"
    and "fst (enrich_try w s svc text) = Inl e"
  shows "client_calls (snd (handleTextMessage w s m))
           = client_calls (snd (enrich_try w s svc text)) @ SendItem User text
             # (if rejects w (client_calls (snd (enrich_try w s svc text))) (SendItem User text)
                then [] else [GenerateResponse])
       \<and> ws_sent (snd (handleTextMessage w s m)) = ws_sent s
       \<and> (fst (handleTextMessage w s m) = Inr () \<longleftrightarrow>
            (\<not> rejects w (client_calls (snd (enrich_try w s svc text))) (SendItem User text)
             \<and> \<not> rejects w (client_calls (snd (enrich_try w s svc text)) @ [SendItem User text]) GenerateResponse))
       \<and> ((e = TypeError \<and> client_calls (snd (enrich_try w s svc text)) = client_calls s)
          \<or> (e = RemoteError
             \<and> (\<exists>c. client_calls (snd (enrich_try w s svc text))
                        = client_calls s @ [SendItem System (contextIntro @ c)]
                   \<and> rejects w (client_calls s) (SendItem System (contextIntro @ c)))))"
proof -
  have "client_calls (snd (handleTextMessage w s m))
           = client_calls (snd (enrich_try w s svc text)) @ SendItem User text
             # (if rejects w (client_calls (snd (enrich_try w s svc text))) (SendItem User text)
                then [] else [GenerateResponse])
       \<and> ws_sent (snd (handleTextMessage w s m)) = ws_sent s
       \<and> (fst (handleTextMessage w s m) = Inr () \<longleftrightarrow>
            (\<not> rejects w (client_calls (snd (enrich_try w s svc text))) (SendItem User text)
             \<and> \<not> rejects w (client_calls (snd (enrich_try w s svc text)) @ [SendItem User text]) GenerateResponse))"
    using assms(1-3)
    by (simp add: handleTextMessage_def enrichWithSculptureData_try [OF assms(2)] client_call_def Let_def
        enrich_try_ws)
  with enrich_try_raised [OF assms(4)] show ?thesis
    by (intro conjI) simp_all
qed


lemma ex_raised_lookup:
  "enrich_try ex_world ex_session_sculptures_only svc_sculptures_only ''Rodin''
     = (Inl TypeError, ex_session_sculptures_only)"
  by code_simp

lemma ex_raised_context:
  "enrich_try ex_world_refusing_context ex_session svc_loaded ''marble David''
     = (Inl RemoteError, ex_session\<lparr>client_calls :=
          [SendItem System (contextIntro @ formatSculptureInfo [ex_david])]\<rparr>)"
  by code_simp

text \<open>
  A store whose document has no artists, asked about Rodin: the lookup raises, and the item
  of the user and the generation request follow with no context item. A remote session
  that rejects system-role items only: the submission of the context raises, and the item
  of the user and the generation request follow. Nothing is sent to the client.
\<close>
theorem enrichment_error_swallowed_witness:
  "fst (enrich_try ex_world ex_session_sculptures_only svc_sculptures_only ''Rodin'') = Inl TypeError
   \<and> client_calls (snd (handleTextMessage ex_world ex_session_sculptures_only ''text:Rodin''))
     = [SendItem User ''Rodin'', GenerateResponse]
   \<and> ws_sent (snd (handleTextMessage ex_world ex_session_sculptures_only ''text:Rodin'')) = []
   \<and> fst (handleTextMessage ex_world ex_session_sculptures_only ''text:Rodin'') = Inr ()
   \<and> fst (enrich_try ex_world_refusing_context ex_session svc_loaded ''marble David'') = Inl RemoteError
   \<and> client_calls (snd (handleTextMessage ex_world_refusing_context ex_session ''text:marble David''))
     = [SendItem System (contextIntro @ formatSculptureInfo [ex_david]),
        SendItem User ''marble David'', GenerateResponse]
   \<and> ws_sent (snd (handleTextMessage ex_world_refusing_context ex_session ''text:marble David'')) = []
   \<and> fst (handleTextMessage ex_world_refusing_context ex_session ''text:marble David'') = Inr ()"
proof -
  have p1: "parseMessage ex_world ''text:Rodin'' = Inr (UserMessage ''u1'' ''Rodin'')"
    and p2: "parseMessage ex_world_refusing_context ''text:marble David''
             = Inr (UserMessage ''u1'' ''marble David'')"
    by (simp_all add: ex_world_refusing_context_def ex_world_def)
  have ds: "dataService ex_session_sculptures_only = Some svc_sculptures_only"
    by (simp add: ex_session_sculptures_only_def)
  have w: "client_calls ex_session = []" "ws_sent ex_session = []"
    "client_calls ex_session_sculptures_only = []" "ws_sent ex_session_sculptures_only = []"
    "rejects ex_world = (\<lambda>issued c. False)"
    "rejects ex_world_refusing_context
       = (\<lambda>issued c. case c of SendItem r t \<Rightarrow> r = System | GenerateResponse \<Rightarrow> False)"
    by (simp_all add: ex_world_refusing_context_def ex_world_def ex_session_def
        ex_session_sculptures_only_def)
  have r1: "fst (enrich_try ex_world ex_session_sculptures_only svc_sculptures_only ''Rodin'') = Inl TypeError"
    and r2: "fst (enrich_try ex_world_refusing_context ex_session svc_loaded ''marble David'') = Inl RemoteError"
    by (simp_all add: ex_raised_lookup ex_raised_context)
  have t: "''Rodin'' \<noteq> []" "''marble David'' \<noteq> []"
    by simp_all
  have lookup: "client_calls (snd (handleTextMessage ex_world ex_session_sculptures_only ''text:Rodin''))
       = [SendItem User ''Rodin'', GenerateResponse]
     \<and> ws_sent (snd (handleTextMessage ex_world ex_session_sculptures_only ''text:Rodin'')) = []
     \<and> fst (handleTextMessage ex_world ex_session_sculptures_only ''text:Rodin'') = Inr ()"
    using enrichment_error_swallowed [OF p1 ds t(1) r1]
    by (simp add: ex_raised_lookup w)
  have "client_calls (snd (handleTextMessage ex_world_refusing_context ex_session ''text:marble David''))
       = [SendItem System (contextIntro @ formatSculptureInfo [ex_david]),
          SendItem User ''marble David'', GenerateResponse]
     \<and> ws_sent (snd (handleTextMessage ex_world_refusing_context ex_session ''text:marble David'')) = []
     \<and> fst (handleTextMessage ex_world_refusing_context ex_session ''text:marble David'') = Inr ()"
    using enrichment_error_swallowed [OF p2 ex_session_loaded(1) t(2) r2]
    by (simp add: ex_raised_context w)
  with lookup r1 r2 show ?thesis
    by simp
qed

text \<open>
  The claim as it stands fails when the remote session is down: it rejects the context
  item, enrichment swallows that error, the item of the user is rejected in turn, the
  handler throws, and generation is never requested.
\<close>
theorem enrichment_remote_down_counterexample:
  "fst (enrich_try ex_world_down ex_session svc_loaded ''marble David'') = Inl RemoteError
   \<and> client_calls (snd (handleTextMessage ex_world_down ex_session ''text:marble David''))
     = [SendItem System (contextIntro @ formatSculptureInfo [ex_david]), SendItem User ''marble David'']
   \<and> fst (handleTextMessage ex_world_down ex_session ''text:marble David'') = Inl RemoteError"
  by code_simp

end
